theory Spec2Isabelle
  imports Main
begin

section \<open>Command specifications\<close>

text \<open>
  A Go string and a byte slice are both sequences of bytes: \<open>string\<close> (a list of
  8-bit characters) models both. A nil slice and an empty slice are both \<open>[]\<close>.
\<close>

type_synonym bytes = string

text \<open>
  The struct \<open>basicCommandArgs\<close>, the only implementation of the interfaces the
  package itself provides.
\<close>

record basicCommandArgs =
  command :: string
  args :: "string list"
  env :: "string list"

text \<open>
  A value of the interface type \<open>Command\<close>. Its dynamic type always has the method
  \<open>Command()\<close>; it may or may not have \<open>Args()\<close> and \<open>Environment()\<close>, which is what
  the type assertions \<open>cmd.(CommandArgs)\<close> and \<open>cmd.(CommandEnv)\<close> test. A method
  that the dynamic type lacks is \<open>None\<close>; otherwise the field holds what the call
  returns.
\<close>

record Command =
  Command :: string
  Args :: "string list option"
  Environment :: "string list option"

text \<open>
  \<open>*basicCommandArgs\<close> declares all three methods, so as an interface value it
  passes both type assertions, whichever constructor built it.
\<close>

definition iface :: "basicCommandArgs \<Rightarrow> Command" where
  "iface b = \<lparr>Command = command b, Args = Some (args b), Environment = Some (env b)\<rparr>"

definition NewCommand :: "string \<Rightarrow> basicCommandArgs" where
  "NewCommand c = \<lparr>command = c, args = [], env = []\<rparr>"

definition NewCommandArgs :: "string \<Rightarrow> string list \<Rightarrow> basicCommandArgs" where
  "NewCommandArgs c a = \<lparr>command = c, args = a, env = []\<rparr>"

definition NewCommandEnv :: "string \<Rightarrow> string list \<Rightarrow> basicCommandArgs" where
  "NewCommandEnv c e = \<lparr>command = c, args = [], env = e\<rparr>"

definition NewCommandArgsEnv :: "string \<Rightarrow> string list \<Rightarrow> string list \<Rightarrow> basicCommandArgs" where
  "NewCommandArgsEnv c a e = \<lparr>command = c, args = a, env = e\<rparr>"

text \<open>
  \<open>commandCollect\<close>, statement by statement. The named results \<open>args\<close> and \<open>env\<close>
  start as nil. The second \<open>if\<close> assigns \<open>cmd.Environment()\<close> to \<open>args\<close>, as the source
  does; \<open>env\<close> is never assigned.
\<close>

definition commandCollect :: "Command \<Rightarrow> string \<times> string list \<times> string list" where
  "commandCollect cmd =
     (let command0 = Command cmd;
          args0 = [];
          env0 = [];
          args1 = (case Args cmd of Some a \<Rightarrow> a | None \<Rightarrow> args0);
          args2 = (case Environment cmd of Some e \<Rightarrow> e | None \<Rightarrow> args1)
      in (command0, args2, env0))"

text \<open>\<open>WithEnv\<close>: \<open>append(subEnv, env...)\<close> is list concatenation.\<close>

definition WithEnv :: "Command \<Rightarrow> string list \<Rightarrow> basicCommandArgs" where
  "WithEnv cmd e =
     (case commandCollect cmd of
        (command0, args0, subEnv) \<Rightarrow> \<lparr>command = command0, args = args0, env = subEnv @ e\<rparr>)"

section \<open>Errors\<close>

text \<open>
  Go's \<open>error\<close> values, as far as the package produces or inspects them. A nil error
  is \<open>None\<close>. \<open>joinError\<close> is what \<open>errors.Join\<close> builds: it wraps the non-nil
  errors it was given, in order.
\<close>

datatype error =
    ErrExitCode int
  | ExitError int
  | OSError string
  | Canceled
  | FormatError string string
  | UnmarshalTypeError
  | joinError "error list"

definition errors_Join :: "error option list \<Rightarrow> error option" where
  "errors_Join errs =
     (let es = List.map_filter (\<lambda>e. e) errs
      in if es = [] then None else Some (joinError es))"

text \<open>
  \<open>errors.As(err, &exit)\<close> with \<open>exit\<close> an \<open>*exec.ExitError\<close>: a depth-first search of
  the error tree for the first \<open>ExitError\<close>; the result is its \<open>ExitCode()\<close>.
\<close>

fun As_ExitError :: "error \<Rightarrow> int option"
  and As_ExitError_list :: "error list \<Rightarrow> int option" where
  "As_ExitError (ExitError n) = Some n"
| "As_ExitError (joinError es) = As_ExitError_list es"
| "As_ExitError (ErrExitCode n) = None"
| "As_ExitError (OSError s) = None"
| "As_ExitError Canceled = None"
| "As_ExitError (FormatError s t) = None"
| "As_ExitError UnmarshalTypeError = None"
| "As_ExitError_list [] = None"
| "As_ExitError_list (e # es) =
     (case As_ExitError e of Some n \<Rightarrow> Some n | None \<Rightarrow> As_ExitError_list es)"

text \<open>
  Whether an error tree holds a given error: what \<open>errors.Is\<close> finds by walking
  \<open>Unwrap() []error\<close>.
\<close>

fun wraps :: "error \<Rightarrow> error \<Rightarrow> bool"
  and wraps_list :: "error list \<Rightarrow> error \<Rightarrow> bool" where
  "wraps (joinError es) x = (joinError es = x \<or> wraps_list es x)"
| "wraps (ErrExitCode n) x = (ErrExitCode n = x)"
| "wraps (ExitError n) x = (ExitError n = x)"
| "wraps (OSError s) x = (OSError s = x)"
| "wraps Canceled x = (Canceled = x)"
| "wraps (FormatError s t) x = (FormatError s t = x)"
| "wraps UnmarshalTypeError x = (UnmarshalTypeError = x)"
| "wraps_list [] x = False"
| "wraps_list (e # es) x = (wraps e x \<or> wraps_list es x)"

definition holds :: "error option \<Rightarrow> error \<Rightarrow> bool" where
  "holds w x = (case w of None \<Rightarrow> False | Some e \<Rightarrow> wraps e x)"

text \<open>Whether an accumulated error holds an exit-code error of any code.\<close>

fun exit_related :: "error \<Rightarrow> bool"
  and exit_related_list :: "error list \<Rightarrow> bool" where
  "exit_related (joinError es) = exit_related_list es"
| "exit_related (ErrExitCode n) = True"
| "exit_related (ExitError n) = True"
| "exit_related (OSError s) = False"
| "exit_related Canceled = False"
| "exit_related (FormatError s t) = False"
| "exit_related UnmarshalTypeError = False"
| "exit_related_list [] = False"
| "exit_related_list (e # es) = (exit_related e \<or> exit_related_list es)"

text \<open>
  An accumulated error is clean when it is nil or holds no exit-code error.
\<close>

definition clean :: "error option \<Rightarrow> bool" where
  "clean w = (case w of None \<Rightarrow> True | Some e \<Rightarrow> \<not> exit_related e)"

section \<open>Messages\<close>

text \<open>
  A value of \<open>time.Time\<close>. The package only stamps and stores times, so the model gives
  them no structure: a time is a number that stands for the value. \<open>time.Now()\<close> is an
  argument of every constructor that stamps the time. What the JSON encoding of
  \<open>time.Time\<close> does with a value is a parameter of the wire format.
\<close>

type_synonym time = nat

text \<open>The marker types that select the stdio variant.\<close>

datatype stdio = stdin | stderr | stdout

text \<open>
  The message structs: \<open>StartMessage\<close>, \<open>ExitMessage\<close> and the generic
  \<open>stdioMessage[K]\<close>, each with the \<open>Time\<close> of its \<open>BaseMessage\<close>. The \<open>Kind\<close> and
  \<open>Stdio\<close> fields are zero-size: the tag they print is fixed by the type.
\<close>

datatype Message =
    StartMessage time
  | ExitMessage time int
  | stdioMessage stdio time bytes

abbreviation StdinMessage :: "time \<Rightarrow> bytes \<Rightarrow> Message" where
  "StdinMessage \<equiv> stdioMessage stdin"

abbreviation StderrMessage :: "time \<Rightarrow> bytes \<Rightarrow> Message" where
  "StderrMessage \<equiv> stdioMessage stderr"

abbreviation StdoutMessage :: "time \<Rightarrow> bytes \<Rightarrow> Message" where
  "StdoutMessage \<equiv> stdioMessage stdout"

definition NewStartMessage :: "time \<Rightarrow> Message" where
  "NewStartMessage now = StartMessage now"

definition NewExitMessage :: "time \<Rightarrow> int \<Rightarrow> Message" where
  "NewExitMessage now code = ExitMessage now code"

text \<open>
  \<open>NewStdioMessage[T]\<close>: the type switch picks the variant of \<open>T\<close>; the default
  branch (a panic) is unreachable for the three types of \<open>StdioLike\<close>. The data is
  cloned, which a value model does by itself.
\<close>

definition NewStdioMessage :: "stdio \<Rightarrow> time \<Rightarrow> bytes \<Rightarrow> Message" where
  "NewStdioMessage T now data =
     (case T of
        stderr \<Rightarrow> StderrMessage now data
      | stdout \<Rightarrow> StdoutMessage now data
      | stdin \<Rightarrow> StdinMessage now data)"

text \<open>\<open>TextInput\<close>, the only \<open>Input\<close> of the package.\<close>

datatype Input = TextInput bytes

text \<open>The method \<open>Input()\<close>.\<close>

fun Input_bytes :: "Input \<Rightarrow> bytes" where
  "Input_bytes (TextInput d) = d"

definition NewInput :: "bytes \<Rightarrow> Input" where
  "NewInput data = TextInput data"

definition NewInputln :: "bytes \<Rightarrow> Input" where
  "NewInputln data = TextInput (data @ [CHR 0x0A])"

section \<open>The wire format\<close>

text \<open>
  The wire format of a message is a JSON object. The model keeps the object as the list
  of its members in the order written, and a value as what it denotes: a string by its
  bytes, a number by the integer. Escaping inside string literals is not modelled:
  writing and reading back a literal gives the same string.
\<close>

datatype json = JString bytes | JNumber int

type_synonym object = "(string \<times> json) list"

text \<open>
  The methods \<open>MarshalJSON\<close> and \<open>UnmarshalJSON\<close> of \<open>time.Time\<close>, which the repository
  does not contain: a parameter of the encoding and the decoding. The first gives the
  RFC 3339 text of a time or an error (\<open>time.Time.MarshalJSON\<close> refuses years outside
  0..9999), the second reads a text back or fails. The text does not keep everything of
  a time (the zone offset only to the minute, no monotonic clock reading), so reading
  back need not give the time that was written.
\<close>

record time_codec =
  Time_MarshalJSON :: "time \<Rightarrow> error + bytes"
  Time_UnmarshalJSON :: "bytes \<Rightarrow> error + time"

text \<open>
  Modelled on Go's \<open>unicode/utf8\<close>, which \<open>encoding/json\<close> uses when it writes a string
  (neither package is among the repository's files; the source reaches them through
  \<open>json.Marshal(string(d))\<close>). For a leading byte of a sequence of several bytes:
  the length of the sequence and the range the second byte must lie in. \<open>None\<close> for a
  byte that cannot lead such a sequence.
\<close>

definition accept_range :: "nat \<Rightarrow> (nat \<times> nat \<times> nat) option" where
  "accept_range b0 =
     (if 0xC2 \<le> b0 \<and> b0 \<le> 0xDF then Some (2, 0x80, 0xBF)
      else if b0 = 0xE0 then Some (3, 0xA0, 0xBF)
      else if 0xE1 \<le> b0 \<and> b0 \<le> 0xEC then Some (3, 0x80, 0xBF)
      else if b0 = 0xED then Some (3, 0x80, 0x9F)
      else if 0xEE \<le> b0 \<and> b0 \<le> 0xEF then Some (3, 0x80, 0xBF)
      else if b0 = 0xF0 then Some (4, 0x90, 0xBF)
      else if 0xF1 \<le> b0 \<and> b0 \<le> 0xF3 then Some (4, 0x80, 0xBF)
      else if b0 = 0xF4 then Some (4, 0x80, 0x8F)
      else None)"

text \<open>
  The range of the third and fourth byte of a sequence.
\<close>

definition continuation :: "nat \<Rightarrow> bool" where
  "continuation b = (0x80 \<le> b \<and> b \<le> 0xBF)"

text \<open>
  \<open>utf8.DecodeRuneInString\<close>, as far as the JSON encoder looks at its result: the width
  of the first rune when the string starts with a valid encoding, \<open>None\<close> when it does not
  (the decoder then answers \<open>RuneError\<close> with width 1).
\<close>

definition rune_width :: "bytes \<Rightarrow> nat option" where
  "rune_width s =
     (case map of_char s of
        [] \<Rightarrow> None
      | b0 # r \<Rightarrow>
          if b0 < 0x80 then Some 1
          else (case accept_range b0 of
                  None \<Rightarrow> None
                | Some (sz, lo, hi) \<Rightarrow>
                    if length s < sz then None
                    else (case r of
                            [] \<Rightarrow> None
                          | b1 # r1 \<Rightarrow>
                              if b1 < lo \<or> hi < b1 then None
                              else if sz \<le> 2 then Some 2
                              else (case r1 of
                                      [] \<Rightarrow> None
                                    | b2 # r2 \<Rightarrow>
                                        if \<not> continuation b2 then None
                                        else if sz \<le> 3 then Some 3
                                        else (case r2 of
                                                [] \<Rightarrow> None
                                              | b3 # r3 \<Rightarrow>
                                                  if \<not> continuation b3 then None
                                                  else Some 4)))))"

text \<open>
  The UTF-8 encoding of U+FFFD, which reading back the escape of that code point yields.
\<close>

definition replacement :: bytes where
  "replacement = [CHR 0xEF, CHR 0xBF, CHR 0xBD]"

text \<open>
  What \<open>json.Marshal\<close> of a Go string followed by \<open>json.Unmarshal\<close> into a string
  gives: the encoder copies every valid sequence and writes the escape of U+FFFD for every byte that
  starts none, advancing by the width found (\<open>encoding/json\<close>: string values are coerced
  to valid UTF-8).
\<close>

fun coerce :: "bytes \<Rightarrow> bytes" where
  "coerce [] = []"
| "coerce (c # cs) =
     (case rune_width (c # cs) of
        None \<Rightarrow> replacement @ coerce cs
      | Some n \<Rightarrow> c # take (n - 1) cs @ coerce (drop (n - 1) cs))"

text \<open>
  \<open>utf8.ValidString\<close>: the string is a sequence of valid encodings.
\<close>

fun ValidString :: "bytes \<Rightarrow> bool" where
  "ValidString [] = True"
| "ValidString (c # cs) =
     (case rune_width (c # cs) of
        None \<Rightarrow> False
      | Some n \<Rightarrow> ValidString (drop (n - 1) cs))"

text \<open>
  \<open>json.Marshal(s)\<close> and \<open>json.Unmarshal(b, &s)\<close> for a string \<open>s\<close>. The coercion is
  placed at the writing side; reading anything but a JSON string into a string is an
  error.
\<close>

definition json_Marshal_string :: "string \<Rightarrow> json" where
  "json_Marshal_string s = JString (coerce s)"

definition json_Unmarshal_string :: "json \<Rightarrow> error + string" where
  "json_Unmarshal_string b = (case b of JString s \<Rightarrow> Inr s | _ \<Rightarrow> Inl UnmarshalTypeError)"

text \<open>
  The tags. \<open>kind[K].String()\<close> is the name of the marker type \<open>K\<close>, and
  \<open>JSONString[S].String()\<close> is \<open>String()\<close> of the zero \<open>S\<close>: \<open>Kind\<close> gives the tag of the
  \<open>Kind\<close> field of a message, \<open>Stdio\<close> the tag of the \<open>Stdio\<close> field of a
  \<open>stdioMessage[K]\<close>.
\<close>

fun Kind :: "Message \<Rightarrow> string" where
  "Kind (StartMessage t) = ''start''"
| "Kind (ExitMessage t code) = ''exit''"
| "Kind (stdioMessage K t d) = ''stdio''"

fun Stdio :: "stdio \<Rightarrow> string" where
  "Stdio stdin = ''stdin''"
| "Stdio stderr = ''stderr''"
| "Stdio stdout = ''stdout''"

text \<open>
  The methods of \<open>JSONString[S]\<close>, with the tag \<open>js.String()\<close> as argument.
  \<open>UnmarshalJSON\<close> returns the error of reading the string, or the error built by
  \<open>fmt.Errorf("expected static string %q, got %q", ...)\<close>, here \<open>FormatError\<close> with the
  expected and the found tag, or nil.
\<close>

definition JSONString_MarshalJSON :: "string \<Rightarrow> json" where
  "JSONString_MarshalJSON tag = json_Marshal_string tag"

definition JSONString_UnmarshalJSON :: "string \<Rightarrow> json \<Rightarrow> error option" where
  "JSONString_UnmarshalJSON tag b =
     (case json_Unmarshal_string b of
        Inl err \<Rightarrow> Some err
      | Inr s \<Rightarrow> if s \<noteq> tag then Some (FormatError tag s) else None)"

text \<open>
  The methods of \<open>Data\<close>. \<open>string(d)\<close> and \<open>[]byte(s)\<close> keep the bytes.
\<close>

definition Data_MarshalJSON :: "bytes \<Rightarrow> json" where
  "Data_MarshalJSON d = json_Marshal_string d"

definition Data_UnmarshalJSON :: "json \<Rightarrow> error + bytes" where
  "Data_UnmarshalJSON b =
     (case json_Unmarshal_string b of Inl err \<Rightarrow> Inl err | Inr s \<Rightarrow> Inr s)"

text \<open>
  The struct types a message is decoded into, with the type of a message, the zero
  value of a type, and access to the \<open>Time\<close> and \<open>Data\<close> fields.
\<close>

datatype message_type = StartMessage_type | ExitMessage_type | stdioMessage_type stdio

fun type_of :: "Message \<Rightarrow> message_type" where
  "type_of (StartMessage t) = StartMessage_type"
| "type_of (ExitMessage t code) = ExitMessage_type"
| "type_of (stdioMessage K t d) = stdioMessage_type K"

fun zero_value :: "message_type \<Rightarrow> Message" where
  "zero_value StartMessage_type = StartMessage 0"
| "zero_value ExitMessage_type = ExitMessage 0 0"
| "zero_value (stdioMessage_type K) = stdioMessage K 0 []"

fun Time :: "Message \<Rightarrow> time" where
  "Time (StartMessage t) = t"
| "Time (ExitMessage t code) = t"
| "Time (stdioMessage K t d) = t"

fun Data :: "Message \<Rightarrow> bytes" where
  "Data (stdioMessage K t d) = d"
| "Data m = []"

fun with_Data :: "bytes \<Rightarrow> Message \<Rightarrow> Message" where
  "with_Data d' (stdioMessage K t d) = stdioMessage K t d'"
| "with_Data d' m = m"

fun with_Time :: "time \<Rightarrow> Message \<Rightarrow> Message" where
  "with_Time t' (StartMessage t) = StartMessage t'"
| "with_Time t' (ExitMessage t code) = ExitMessage t' code"
| "with_Time t' (stdioMessage K t d) = stdioMessage K t' d"

text \<open>
  \<open>json.Marshal\<close> of a message struct: the members in the order of the fields, those of
  the embedded \<open>BaseMessage\<close> first, each under the name of its \<open>json\<close> tag. The time
  is written by its \<open>MarshalJSON\<close>; when that fails, the encoding fails with its error.
\<close>

fun members :: "json \<Rightarrow> Message \<Rightarrow> object" where
  "members j (StartMessage t) =
     [(''time'', j), (''kind'', JSONString_MarshalJSON (Kind (StartMessage t)))]"
| "members j (ExitMessage t code) =
     [(''time'', j), (''kind'', JSONString_MarshalJSON (Kind (ExitMessage t code))),
      (''code'', JNumber code)]"
| "members j (stdioMessage K t d) =
     [(''time'', j), (''kind'', JSONString_MarshalJSON (Kind (stdioMessage K t d))),
      (''stdio'', JSONString_MarshalJSON (Stdio K)), (''data'', Data_MarshalJSON d)]"

definition json_Marshal :: "time_codec \<Rightarrow> Message \<Rightarrow> error + object" where
  "json_Marshal tc m =
     (case Time_MarshalJSON tc (Time m) of
        Inl err \<Rightarrow> Inl err
      | Inr s \<Rightarrow> Inr (members (JString s) m))"

text \<open>
  \<open>json.Unmarshal\<close> into a message struct. The decoder goes through the members of the
  object in order. A member named like a field of the struct is stored into it, by the
  field's \<open>UnmarshalJSON\<close> where it has one; an error ends the decoding. A member with
  no field of its name is skipped, and a field with no member keeps its zero value.
  The struct being filled is a message of the target type, starting from the zero
  value.
\<close>

definition decode_member :: "time_codec \<Rightarrow> string \<Rightarrow> json \<Rightarrow> Message \<Rightarrow> error + Message" where
  "decode_member tc k v m =
     (if k = ''time'' then
        (case v of
           JString s \<Rightarrow>
             (case Time_UnmarshalJSON tc s of Inl err \<Rightarrow> Inl err | Inr t \<Rightarrow> Inr (with_Time t m))
         | _ \<Rightarrow> Inl UnmarshalTypeError)
      else if k = ''kind'' then
        (case JSONString_UnmarshalJSON (Kind m) v of Some err \<Rightarrow> Inl err | None \<Rightarrow> Inr m)
      else case m of
             StartMessage t \<Rightarrow> Inr m
           | ExitMessage t code \<Rightarrow>
               if k = ''code'' then
                 (case v of JNumber n \<Rightarrow> Inr (ExitMessage t n) | _ \<Rightarrow> Inl UnmarshalTypeError)
               else Inr m
           | stdioMessage K t d \<Rightarrow>
               if k = ''stdio'' then
                 (case JSONString_UnmarshalJSON (Stdio K) v of Some err \<Rightarrow> Inl err | None \<Rightarrow> Inr m)
               else if k = ''data'' then
                 (case Data_UnmarshalJSON v of Inl err \<Rightarrow> Inl err | Inr d' \<Rightarrow> Inr (stdioMessage K t d'))
               else Inr m)"

fun decode_object :: "time_codec \<Rightarrow> object \<Rightarrow> Message \<Rightarrow> error + Message" where
  "decode_object tc [] m = Inr m"
| "decode_object tc ((k, v) # rest) m =
     (case decode_member tc k v m of Inl err \<Rightarrow> Inl err | Inr m' \<Rightarrow> decode_object tc rest m')"

definition json_Unmarshal :: "time_codec \<Rightarrow> message_type \<Rightarrow> object \<Rightarrow> error + Message" where
  "json_Unmarshal tc T obj = decode_object tc obj (zero_value T)"

text \<open>Encoding a message and decoding the result into the type \<open>T\<close>.\<close>

definition roundtrip :: "time_codec \<Rightarrow> message_type \<Rightarrow> Message \<Rightarrow> error + Message" where
  "roundtrip tc T m =
     (case json_Marshal tc m of Inl err \<Rightarrow> Inl err | Inr obj \<Rightarrow> json_Unmarshal tc T obj)"

text \<open>
  An instance of the parameter for the examples: the time \<open>0\<close> stands for the Unix epoch
  in UTC, whose text is \<open>1970-01-01T00:00:00Z\<close> and is read back as the same time. No
  other time and no other text is in the domain of this instance.
\<close>

definition epoch_codec :: time_codec where
  "epoch_codec =
     \<lparr>Time_MarshalJSON = (\<lambda>t. if t = 0 then Inr ''1970-01-01T00:00:00Z''
                                else Inl (OSError ''Time.MarshalJSON'')),
      Time_UnmarshalJSON = (\<lambda>s. if s = ''1970-01-01T00:00:00Z'' then Inr 0
                                  else Inl (OSError ''Time.UnmarshalJSON''))\<rparr>"

section \<open>The broadcast stream\<close>

text \<open>
  Modelled from the spec: \<open>flow.Stream\<close> of the module github.com/bobcatalyst/flow,
  which is not among the repository's files. The spec (section 6) gives its contract:
  \<open>Push\<close> publishes items, \<open>Close\<close> publishes final items and then ends the channel
  for good. The model keeps what has been published, in order, and whether the channel
  has ended; nothing is published after the end.
\<close>

record 'a Stream =
  published :: "'a list"
  closed :: bool

definition Stream_Push :: "'a list \<Rightarrow> 'a Stream \<Rightarrow> 'a Stream" where
  "Stream_Push xs s = (if closed s then s else s\<lparr>published := published s @ xs\<rparr>)"

definition Stream_Close :: "'a list \<Rightarrow> 'a Stream \<Rightarrow> 'a Stream" where
  "Stream_Close xs s =
     (if closed s then s else s\<lparr>published := published s @ xs, closed := True\<rparr>)"

section \<open>The controller\<close>

text \<open>
  \<open>sync.Once\<close>: not yet used, running its function (other callers of \<open>Do\<close> block),
  or done.
\<close>

datatype once = Idle | Running | Finished

text \<open>
  The watcher that \<open>New\<close> arms with \<open>context.AfterFunc(ctx, func() { c.Close() })\<close>:
  armed, fired (the context was cancelled while it was armed, which starts a goroutine
  that calls \<open>Close\<close>), or stopped by \<open>cmd.stop()\<close> before it fired.
\<close>

datatype watcher = Armed | Fired | Stopped

text \<open>
  The struct \<open>Cmd\<close> together with the operating-system objects it owns. \<open>ctx_err\<close> is
  \<open>cmd.ctx.Err()\<close>; \<open>wait\<close> counts the executions of \<open>close(cmd.wait)\<close> (the channel
  of \<open>Done()\<close> is closed when it is positive; a second execution would panic in Go);
  \<open>spawns\<close> counts the calls of \<open>cmd.cmd.Run()\<close>; \<open>process\<close> says whether
  \<open>cmd.cmd.Process\<close> is set, which it is from the moment \<open>Run\<close> has started the
  process and not before; \<open>kills\<close> counts the kill signals sent to the process;
  \<open>stdin_written\<close> is what the stdin pipe has accepted, \<open>stdin_closes\<close> counts the calls
  of its \<open>Close\<close>; \<open>slog\<close> holds the lines logged; \<open>panicked\<close> says that a goroutine
  has panicked, which ends the whole program.
\<close>

record Cmd =
  out :: "Message Stream"
  ctx_err :: "error option"
  watcher :: watcher
  started :: bool
  wait :: nat
  waitErr :: "error option"
  killOnce :: once
  spawns :: nat
  process :: bool
  kills :: nat
  stdin_written :: bytes
  stdin_closes :: nat
  slog :: "string list"
  panicked :: bool

text \<open>The controller as \<open>New\<close> returns it.\<close>

definition New :: Cmd where
  "New = \<lparr>out = \<lparr>published = [], closed = False\<rparr>, ctx_err = None, watcher = Armed,
          started = False, wait = 0, waitErr = None, killOnce = Idle, spawns = 0,
          process = False, kills = 0, stdin_written = [], stdin_closes = 0, slog = [],
          panicked = False\<rparr>"

subsection \<open>Threads\<close>

text \<open>
  Callers of \<open>Start\<close> and \<open>CloseTimeout\<close>, the goroutine of \<open>runCmd\<close>, the input pump
  and the writer shims run concurrently on one controller. A thread is a position in
  the code of its function. \<open>time.Duration\<close> is an integer.
\<close>

type_synonym duration = int

text \<open>
  The positions in \<open>CloseTimeout(timeout)\<close>, each named after the statement that runs
  next: \<open>cmd.cancel()\<close>; \<open>cmd.stop()\<close>; the compare-and-swap; then, when it succeeded,
  the three steps of \<open>cleanupCmd(false)\<close> and \<open>killOnce.Do(func() {})\<close>; when it
  failed, \<open>killOnce.Do\<close> of the function that waits (entering it, the \<open>select\<close>, the
  signal after the timer fired, leaving it); then the receive from \<open>cmd.Done()\<close> and the return of
  \<open>cmd.waitErr\<close>.
\<close>

datatype close_pc =
    C_cancel | C_stop | C_cas
  | C_cleanup_out | C_cleanup_stdin | C_cleanup_wait | C_once_empty
  | C_once_kill | C_select | C_signal | C_once_exit
  | C_wait | C_return

text \<open>
  The positions in \<open>runCmd\<close>: the push of the start message, the start of the pump,
  the call of \<open>cmd.cmd.Run()\<close>, its return, \<open>sendCode\<close>, and the two last steps of
  \<open>cleanupCmd(true)\<close>.
\<close>

datatype run_pc =
    R_push_start | R_go_pump | R_run | R_proc_wait | R_sendCode
  | R_cleanup_stdin | R_cleanup_wait

text \<open>
  The positions in \<open>pipeInput\<close>: the loop condition, the \<open>select\<close> with the body of
  the loop, and the two deferred calls.
\<close>

datatype pump_pc = P_head | P_select | P_cancel | P_close

text \<open>
  A thread: a call of \<open>Start\<close> before its compare-and-swap or before its
  \<open>go cmd.runCmd()\<close>; a call of \<open>CloseTimeout\<close> with its timeout; the goroutine of
  \<open>runCmd\<close> with the value of \<open>code\<close>; the pump; one call of a writer shim; the
  cancellation of the context given to \<open>New\<close>; a thread that has ended; a call of
  \<open>CloseTimeout\<close> that has returned an error value; a call of \<open>CloseTimeout\<close> that
  has panicked.
\<close>

datatype thread =
    Start_call
  | Start_go
  | CloseTimeout_call duration close_pc
  | runCmd_thread run_pc int
  | pipeInput_thread pump_pc
  | Write_call stdio bytes
  | parent_cancel
  | Exited
  | Returned "error option"
  | Crashed

text \<open>
  \<open>cmd.cancel()\<close>. The first cancellation of the context sets its error. \<open>New\<close> has
  registered \<open>func() { c.Close() }\<close> with \<open>context.AfterFunc\<close>: when the context is
  cancelled while that watcher is armed, the cancellation itself starts a goroutine
  that calls \<open>Close\<close>, which is \<open>CloseTimeout(0)\<close>. The second component holds the
  threads started.
\<close>

definition cancel :: "Cmd \<Rightarrow> Cmd \<times> thread list" where
  "cancel c =
     (if ctx_err c \<noteq> None then (c, [])
      else if watcher c = Armed
        then (c\<lparr>ctx_err := Some Canceled, watcher := Fired\<rparr>, [CloseTimeout_call 0 C_cancel])
        else (c\<lparr>ctx_err := Some Canceled\<rparr>, []))"

text \<open>\<open>cmd.stop()\<close>: disarms the watcher unless it has fired.\<close>

definition stop :: "Cmd \<Rightarrow> Cmd" where
  "stop c = (if watcher c = Armed then c\<lparr>watcher := Stopped\<rparr> else c)"

subsection \<open>The writer shims\<close>

text \<open>\<open>kindWriter[K].Write\<close>: the result \<open>(n, err)\<close> and the controller afterwards.\<close>

definition Write :: "stdio \<Rightarrow> time \<Rightarrow> bytes \<Rightarrow> Cmd \<Rightarrow> (nat \<times> error option) \<times> Cmd" where
  "Write K now b c =
     (if ctx_err c \<noteq> None then ((0, ctx_err c), c)
      else ((length b, None), c\<lparr>out := Stream_Push [NewStdioMessage K now b] (out c)\<rparr>))"

subsection \<open>The input pump\<close>

text \<open>
  What one \<open>select\<close> of \<open>pipeInput\<close> yields: the context is done, or a receive from the
  subscription, \<open>None\<close> when the channel is closed. With a received item comes what
  \<open>in.Write(b)\<close> will return for it, \<open>(n, err)\<close>, and the time of the echo message. The
  \<open>io.Writer\<close> contract gives \<open>n \<le> len(b)\<close>, so \<open>b[:n]\<close> is \<open>take n b\<close>.
\<close>

datatype select = ctx_Done | recv "Input option"

record pump_event =
  chosen :: select
  write_n :: nat
  write_err :: "string option"
  echo_time :: time

text \<open>
  One pass through the body of the loop, after its condition held. The result says
  whether the loop goes on (\<open>True\<close>) or the function returns (\<open>False\<close>).
\<close>

definition pipeInput_body :: "pump_event \<Rightarrow> Cmd \<Rightarrow> Cmd \<times> bool" where
  "pipeInput_body ev c =
     (case chosen ev of
        ctx_Done \<Rightarrow> (c, False)
      | recv None \<Rightarrow> (c, False)
      | recv (Some data) \<Rightarrow>
          (let b = Input_bytes data;
               n = write_n ev;
               err = write_err ev;
               c1 = c\<lparr>stdin_written := stdin_written c @ take n b\<rparr>;
               c2 = c1\<lparr>out := Stream_Push [NewStdioMessage stdin (echo_time ev) (take n b)] (out c1)\<rparr>
           in if err \<noteq> None then (c2, False)
              else if n \<le> length b then (c2\<lparr>slog := slog c2 @ [''incomplete write of stdin'']\<rparr>, True)
              else (c2, True)))"

text \<open>
  The loop over the events the pump meets, one per pass. The first component of the
  result is the controller; the second says whether the loop has ended. When the events
  run out first, the pump is still waiting in its \<open>select\<close>.
\<close>

fun pipeInput_loop :: "pump_event list \<Rightarrow> Cmd \<Rightarrow> Cmd \<times> bool" where
  "pipeInput_loop evs c =
     (if ctx_err c \<noteq> None then (c, True)
      else case evs of
             [] \<Rightarrow> (c, False)
           | ev # rest \<Rightarrow>
               (case pipeInput_body ev c of
                  (c', True) \<Rightarrow> pipeInput_loop rest c'
                | (c', False) \<Rightarrow> (c', True)))"

declare pipeInput_loop.simps [simp del]

text \<open>
  The deferred calls of \<open>pipeInput\<close>, which run when the loop has ended:
  \<open>cmd.cancel()\<close>, then \<open>in.Close()\<close>. The goroutine that the cancellation may start
  through the watcher is not part of this function.
\<close>

definition pipeInput_deferred :: "Cmd \<Rightarrow> Cmd" where
  "pipeInput_deferred c =
     (let c1 = fst (cancel c) in c1\<lparr>stdin_closes := stdin_closes c1 + 1\<rparr>)"

definition pipeInput :: "pump_event list \<Rightarrow> Cmd \<Rightarrow> Cmd \<times> bool" where
  "pipeInput evs c =
     (case pipeInput_loop evs c of
        (c', True) \<Rightarrow> (pipeInput_deferred c', True)
      | (c', False) \<Rightarrow> (c', False))"

text \<open>
  For stating what the pump does. An event ends the pump unless it is an item whose
  write returned no error. \<open>accepted\<close> lists, for the items the pump handles before it
  ends, the time of the echo and the bytes written, in the order of the events.
\<close>

definition stops :: "pump_event \<Rightarrow> bool" where
  "stops ev = (case chosen ev of recv (Some d) \<Rightarrow> write_err ev \<noteq> None | _ \<Rightarrow> True)"

fun accepted :: "pump_event list \<Rightarrow> (time \<times> bytes) list" where
  "accepted [] = []"
| "accepted (ev # evs) =
     (case chosen ev of
        recv (Some d) \<Rightarrow>
          (echo_time ev, take (write_n ev) (Input_bytes d))
            # (if write_err ev = None then accepted evs else [])
      | _ \<Rightarrow> [])"

subsection \<open>The process-wait task and the cleanup\<close>

text \<open>\<open>close(cmd.wait)\<close>, the deferred call of \<open>cleanupCmd\<close>.\<close>

definition close_wait :: "Cmd \<Rightarrow> Cmd" where
  "close_wait c = c\<lparr>wait := wait c + 1\<rparr>"

text \<open>
  The body of \<open>runCmd\<close> after \<open>cmd.cmd.Run()\<close> has returned \<open>err\<close>. The variable
  \<open>code\<close> of the closures of \<open>exitCode\<close> is threaded through as the first component.
\<close>

definition runCmd_body :: "error option \<Rightarrow> int \<times> Cmd \<Rightarrow> int \<times> Cmd" where
  "runCmd_body err cc =
     (case cc of (code, c) \<Rightarrow>
        (case err of
           None \<Rightarrow> (code, c)
         | Some e \<Rightarrow>
             (let code1 = - 1
              in case As_ExitError e of
                   Some n \<Rightarrow> (n, c)
                 | None \<Rightarrow> (code1, c\<lparr>waitErr := errors_Join [waitErr c, Some e]\<rparr>))))"

text \<open>The closure \<open>sendCode\<close>.\<close>

definition sendCode :: "time \<Rightarrow> int \<Rightarrow> Cmd \<Rightarrow> Cmd" where
  "sendCode now code c =
     (let c1 = (if code \<noteq> 0 then c\<lparr>waitErr := errors_Join [waitErr c, Some (ErrExitCode code)]\<rparr> else c)
      in c1\<lparr>out := Stream_Close [NewExitMessage now code] (out c1)\<rparr>)"

text \<open>
  \<open>cleanupCmd(started)\<close> in its three steps: closing the stream when the process never
  started, joining what \<open>cmd.stdin.Close()\<close> returns (an error of the operating system,
  or nil), and the deferred \<open>close(cmd.wait)\<close>.
\<close>

definition cleanupCmd_out :: "bool \<Rightarrow> Cmd \<Rightarrow> Cmd" where
  "cleanupCmd_out st c = (if \<not> st then c\<lparr>out := Stream_Close [] (out c)\<rparr> else c)"

definition cleanupCmd_stdin :: "string option \<Rightarrow> Cmd \<Rightarrow> Cmd" where
  "cleanupCmd_stdin cl c =
     c\<lparr>waitErr := errors_Join [waitErr c, map_option OSError cl],
       stdin_closes := stdin_closes c + 1\<rparr>"

definition cleanupCmd :: "bool \<Rightarrow> string option \<Rightarrow> Cmd \<Rightarrow> Cmd" where
  "cleanupCmd st cl c = close_wait (cleanupCmd_stdin cl (cleanupCmd_out st c))"

text \<open>
  The call of \<open>cmd.cmd.Run()\<close> up to the start of the process. \<open>exec\<close> refuses to start
  a process when the context is already done, and starting may fail for other reasons
  (\<open>ok\<close> is false then); \<open>cmd.cmd.Process\<close> is set only when the process was started.
\<close>

definition call_Run :: "bool \<Rightarrow> Cmd \<Rightarrow> Cmd" where
  "call_Run ok c = c\<lparr>spawns := spawns c + 1, process := (ctx_err c = None \<and> ok)\<rparr>"

text \<open>
  \<open>runCmd\<close> on its own, without the goroutines that run beside it. The environment
  gives the two times stamped, whether the process can be started, what
  \<open>cmd.cmd.Run()\<close> returns and what \<open>cmd.stdin.Close()\<close> returns. An
  \<open>*exec.ExitError\<close> carries what its \<open>ExitCode()\<close> returns, which is \<open>-1\<close> for a process
  that a signal terminated. The deferred calls run in reverse order of their
  registration: \<open>sendCode\<close>, then \<open>cleanupCmd(true)\<close>.
\<close>

record run_env =
  start_time :: time
  can_start :: bool
  run_err :: "error option"
  exit_time :: time
  close_err :: "string option"

definition runCmd :: "run_env \<Rightarrow> Cmd \<Rightarrow> Cmd" where
  "runCmd e c =
     (let code = 0;
          c1 = c\<lparr>out := Stream_Push [NewStartMessage (start_time e)] (out c)\<rparr>;
          c2 = call_Run (can_start e) c1
      in case runCmd_body (run_err e) (code, c2) of
           (code1, c3) \<Rightarrow> cleanupCmd True (close_err e) (sendCode (exit_time e) code1 c3))"

section \<open>The controller under concurrent callers\<close>

text \<open>
  The model is an interleaving of atomic steps: a step runs one statement of one
  thread on the shared controller.
\<close>

text \<open>
  What the world outside the controller decides for one step: the time, whether the
  process can be started, what \<open>cmd.cmd.Run()\<close> returns, what \<open>cmd.stdin.Close()\<close>
  returns, whether the timer of \<open>time.After\<close> has fired, and what the pump's \<open>select\<close>
  and write yield.
\<close>

record env =
  now :: time
  start_ok :: bool
  run_result :: "error option"
  close_result :: "string option"
  timer_fired :: bool
  pump :: pump_event

text \<open>
  One step of a thread: the thread afterwards, the controller afterwards and the
  threads started. \<open>None\<close> when the thread cannot move: it has ended, it waits for
  \<open>killOnce\<close> while another thread runs its function, it waits in a \<open>select\<close> of
  which no case is ready, or it waits for the channel of \<open>Done()\<close>. Every statement of
  \<open>Start\<close>, \<open>CloseTimeout\<close>, \<open>runCmd\<close> and \<open>cleanupCmd\<close> that touches \<open>started\<close>,
  \<open>wait\<close>, \<open>waitErr\<close> or \<open>killOnce\<close> is a step of its own. A call of a writer shim
  and one pass of the pump's loop body are one step each; they touch none of these
  fields. \<open>cmd.cmd.Run()\<close> is two steps: the call, which counts the spawn and starts
  the process or fails to, and the return, whose result the environment gives.
  \<open>cmd.cmd.Process.Signal(os.Kill)\<close> sends the signal when \<open>cmd.cmd.Process\<close> is set;
  when it is nil the method call dereferences a nil pointer and the goroutine panics.
\<close>

fun thread_step :: "env \<Rightarrow> thread \<Rightarrow> Cmd \<Rightarrow> (thread \<times> Cmd \<times> thread list) option" where
  "thread_step e Start_call c =
     (if \<not> started c then Some (Start_go, c\<lparr>started := True\<rparr>, [])
      else Some (Exited, c, []))"
| "thread_step e Start_go c = Some (Exited, c, [runCmd_thread R_push_start 0])"
| "thread_step e (CloseTimeout_call d C_cancel) c =
     (case cancel c of (c', new) \<Rightarrow> Some (CloseTimeout_call d C_stop, c', new))"
| "thread_step e (CloseTimeout_call d C_stop) c = Some (CloseTimeout_call d C_cas, stop c, [])"
| "thread_step e (CloseTimeout_call d C_cas) c =
     (if \<not> started c then Some (CloseTimeout_call d C_cleanup_out, c\<lparr>started := True\<rparr>, [])
      else Some (CloseTimeout_call d C_once_kill, c, []))"
| "thread_step e (CloseTimeout_call d C_cleanup_out) c =
     Some (CloseTimeout_call d C_cleanup_stdin, cleanupCmd_out False c, [])"
| "thread_step e (CloseTimeout_call d C_cleanup_stdin) c =
     Some (CloseTimeout_call d C_cleanup_wait, cleanupCmd_stdin (close_result e) c, [])"
| "thread_step e (CloseTimeout_call d C_cleanup_wait) c =
     Some (CloseTimeout_call d C_once_empty, close_wait c, [])"
| "thread_step e (CloseTimeout_call d C_once_empty) c =
     (case killOnce c of
        Running \<Rightarrow> None
      | Finished \<Rightarrow> Some (CloseTimeout_call d C_wait, c, [])
      | Idle \<Rightarrow> Some (CloseTimeout_call d C_wait, c\<lparr>killOnce := Finished\<rparr>, []))"
| "thread_step e (CloseTimeout_call d C_once_kill) c =
     (case killOnce c of
        Running \<Rightarrow> None
      | Finished \<Rightarrow> Some (CloseTimeout_call d C_wait, c, [])
      | Idle \<Rightarrow>
          Some (CloseTimeout_call d (if d > 0 then C_select else C_once_exit),
                c\<lparr>killOnce := Running\<rparr>, []))"
| "thread_step e (CloseTimeout_call d C_select) c =
     (if timer_fired e then Some (CloseTimeout_call d C_signal, c, [])
      else if wait c > 0 then Some (CloseTimeout_call d C_once_exit, c, [])
      else None)"
| "thread_step e (CloseTimeout_call d C_signal) c =
     (if process c then Some (CloseTimeout_call d C_once_exit, c\<lparr>kills := kills c + 1\<rparr>, [])
      else Some (Crashed, c\<lparr>panicked := True\<rparr>, []))"
| "thread_step e (CloseTimeout_call d C_once_exit) c =
     Some (CloseTimeout_call d C_wait, c\<lparr>killOnce := Finished\<rparr>, [])"
| "thread_step e (CloseTimeout_call d C_wait) c =
     (if wait c > 0 then Some (CloseTimeout_call d C_return, c, []) else None)"
| "thread_step e (CloseTimeout_call d C_return) c = Some (Returned (waitErr c), c, [])"
| "thread_step e (runCmd_thread R_push_start code) c =
     Some (runCmd_thread R_go_pump code,
           c\<lparr>out := Stream_Push [NewStartMessage (now e)] (out c)\<rparr>, [])"
| "thread_step e (runCmd_thread R_go_pump code) c =
     Some (runCmd_thread R_run code, c, [pipeInput_thread P_head])"
| "thread_step e (runCmd_thread R_run code) c =
     Some (runCmd_thread R_proc_wait code, call_Run (start_ok e) c, [])"
| "thread_step e (runCmd_thread R_proc_wait code) c =
     (case runCmd_body (run_result e) (code, c) of
        (code', c') \<Rightarrow> Some (runCmd_thread R_sendCode code', c', []))"
| "thread_step e (runCmd_thread R_sendCode code) c =
     Some (runCmd_thread R_cleanup_stdin code, sendCode (now e) code c, [])"
| "thread_step e (runCmd_thread R_cleanup_stdin code) c =
     Some (runCmd_thread R_cleanup_wait code,
           cleanupCmd_stdin (close_result e) (cleanupCmd_out True c), [])"
| "thread_step e (runCmd_thread R_cleanup_wait code) c = Some (Exited, close_wait c, [])"
| "thread_step e (pipeInput_thread P_head) c =
     (if ctx_err c \<noteq> None then Some (pipeInput_thread P_cancel, c, [])
      else Some (pipeInput_thread P_select, c, []))"
| "thread_step e (pipeInput_thread P_select) c =
     (if chosen (pump e) = ctx_Done \<and> ctx_err c = None then None
      else case pipeInput_body (pump e) c of
             (c', True) \<Rightarrow> Some (pipeInput_thread P_head, c', [])
           | (c', False) \<Rightarrow> Some (pipeInput_thread P_cancel, c', []))"
| "thread_step e (pipeInput_thread P_cancel) c =
     (case cancel c of (c', new) \<Rightarrow> Some (pipeInput_thread P_close, c', new))"
| "thread_step e (pipeInput_thread P_close) c =
     Some (Exited, c\<lparr>stdin_closes := stdin_closes c + 1\<rparr>, [])"
| "thread_step e (Write_call K b) c = Some (Exited, snd (Write K (now e) b c), [])"
| "thread_step e parent_cancel c = (case cancel c of (c', new) \<Rightarrow> Some (Exited, c', new))"
| "thread_step e Exited c = None"
| "thread_step e (Returned r) c = None"
| "thread_step e Crashed c = None"

text \<open>
  A configuration: the controller and the threads. A scheduling decision names a
  thread by its index and gives the environment of the step; a thread that cannot move
  leaves the configuration as it is. No function of the package recovers from a panic,
  and the callers are taken not to either: after a panic the program has ended and no
  thread moves. \<open>exec\<close> runs a schedule.
\<close>

record config =
  shared :: Cmd
  threads :: "thread list"

definition step :: "nat \<times> env \<Rightarrow> config \<Rightarrow> config" where
  "step s cfg =
     (case s of (i, e) \<Rightarrow>
        if \<not> panicked (shared cfg) \<and> i < length (threads cfg)
        then (case thread_step e (threads cfg ! i) (shared cfg) of
                None \<Rightarrow> cfg
              | Some (t', c', new) \<Rightarrow> \<lparr>shared = c', threads = (threads cfg)[i := t'] @ new\<rparr>)
        else cfg)"

definition exec :: "(nat \<times> env) list \<Rightarrow> config \<Rightarrow> config" where
  "exec sched cfg = fold step sched cfg"

text \<open>
  What happens to a controller from outside: calls of its methods, the cancellation of
  the context given to \<open>New\<close>, and a chunk of process output handed to a writer shim.
  The initial configuration holds the controller as \<open>New\<close> returns it and one thread
  per event.
\<close>

datatype call = Start | Close | CloseTimeout duration | Cancel_parent | Output stdio bytes

fun call_thread :: "call \<Rightarrow> thread" where
  "call_thread Start = Start_call"
| "call_thread Close = CloseTimeout_call 0 C_cancel"
| "call_thread (CloseTimeout d) = CloseTimeout_call d C_cancel"
| "call_thread Cancel_parent = parent_cancel"
| "call_thread (Output K b) = Write_call K b"

definition init :: "call list \<Rightarrow> config" where
  "init calls = \<lparr>shared = New, threads = map call_thread calls\<rparr>"

text \<open>The error values that calls of \<open>CloseTimeout\<close> have returned so far.\<close>

fun returned :: "thread \<Rightarrow> error option option" where
  "returned (Returned r) = Some r"
| "returned t = None"

definition returns :: "config \<Rightarrow> error option list" where
  "returns cfg = List.map_filter returned (threads cfg)"

text \<open>
  An environment in which the timer has fired, the process can be started and ends
  with status zero, and the input channel is closed.
\<close>

definition firing :: env where
  "firing = \<lparr>now = 0, start_ok = True, run_result = None, close_result = None, timer_fired = True,
             pump = \<lparr>chosen = recv None, write_n = 0, write_err = None, echo_time = 0\<rparr>\<rparr>"

text \<open>
  Schedules used as examples, each with the events it starts from. \<open>lifecycle\<close>, from
  \<open>[Start, Close, CloseTimeout 5]\<close>: the process is started, two callers close while it
  runs, it ends with exit status 3 and both callers return. \<open>early_timeout\<close>, from
  \<open>[Start, CloseTimeout 1]\<close>: \<open>Start\<close> has started the goroutine of \<open>runCmd\<close>, which has
  not run yet, when the caller of \<open>CloseTimeout\<close> takes the branch that waits and its
  timer fires. \<open>blocked_close\<close>, from \<open>[Start, Close, CloseTimeout 1]\<close>: the same, with
  a caller of \<open>Close\<close> that has come as far as waiting for \<open>killOnce\<close>. \<open>race\<close>, from
  \<open>[CloseTimeout 1]\<close>: the call of \<open>Close\<close> that the watcher starts wins the
  compare-and-swap against thread 0, whose timer then fires.
\<close>

definition lifecycle :: "(nat \<times> env) list" where
  "lifecycle = map (\<lambda>i. (i, firing\<lparr>run_result := Some (ExitError 3)\<rparr>))
     [0, 0, 3, 3, 3, 1, 1, 1, 1, 1, 1, 2, 2, 2, 2, 3, 3, 3, 3, 1, 1, 2, 2]"

definition early_timeout :: "(nat \<times> env) list" where
  "early_timeout = map (\<lambda>i. (i, firing)) [0, 0, 1, 1, 1, 1, 1, 1]"

definition blocked_close :: "(nat \<times> env) list" where
  "blocked_close = map (\<lambda>i. (i, firing)) [0, 0, 2, 2, 2, 2, 2, 1, 1, 1, 1, 2]"

definition race :: "(nat \<times> env) list" where
  "race = map (\<lambda>i. (i, firing)) [0, 1, 1, 1, 0, 0, 0, 0, 0]"

subsection \<open>What the invariants count\<close>

text \<open>
  Weights of threads. \<open>own\<close>: the thread still has to execute \<open>close(cmd.wait)\<close> (it
  won the compare-and-swap, or it is the goroutine that the winner started).
  \<open>may_spawn\<close>: the thread still has \<open>cmd.cmd.Run()\<close> before it. \<open>in_once\<close>: it is
  inside the function given to \<open>killOnce.Do\<close>, or it panicked there. \<open>may_kill\<close>: it
  may still send the kill signal.
\<close>

fun own :: "thread \<Rightarrow> nat" where
  "own Start_go = 1"
| "own (runCmd_thread pc code) = 1"
| "own (CloseTimeout_call d C_cleanup_out) = 1"
| "own (CloseTimeout_call d C_cleanup_stdin) = 1"
| "own (CloseTimeout_call d C_cleanup_wait) = 1"
| "own t = 0"

fun may_spawn :: "thread \<Rightarrow> nat" where
  "may_spawn Start_go = 1"
| "may_spawn (runCmd_thread R_push_start code) = 1"
| "may_spawn (runCmd_thread R_go_pump code) = 1"
| "may_spawn (runCmd_thread R_run code) = 1"
| "may_spawn t = 0"

fun in_once :: "thread \<Rightarrow> nat" where
  "in_once (CloseTimeout_call d C_select) = 1"
| "in_once (CloseTimeout_call d C_signal) = 1"
| "in_once (CloseTimeout_call d C_once_exit) = 1"
| "in_once Crashed = 1"
| "in_once t = 0"

fun may_kill :: "thread \<Rightarrow> nat" where
  "may_kill (CloseTimeout_call d C_select) = 1"
| "may_kill (CloseTimeout_call d C_signal) = 1"
| "may_kill t = 0"

definition total :: "(thread \<Rightarrow> nat) \<Rightarrow> thread list \<Rightarrow> nat" where
  "total f ts = sum_list (map f ts)"

definition inv_counts :: "config \<Rightarrow> bool" where
  "inv_counts cfg =
     (let c = shared cfg; ts = threads cfg in
        total own ts + wait c = (if started c then 1 else 0)
      \<and> total may_spawn ts + spawns c \<le> (if started c then 1 else 0)
      \<and> total in_once ts = (if killOnce c = Running then 1 else 0)
      \<and> total may_kill ts + kills c \<le> (if killOnce c = Idle then 0 else 1))"

text \<open>
  What a thread's position says about the controller: a call past its compare-and-swap
  and the goroutine of \<open>runCmd\<close> exist only once \<open>started\<close> is set; a call past its
  receive from \<open>Done()\<close> has seen the channel closed; a returned value is the
  accumulated error.
\<close>

fun thread_ok :: "Cmd \<Rightarrow> thread \<Rightarrow> bool" where
  "thread_ok c (Returned r) = (started c \<and> wait c = 1 \<and> waitErr c = r)"
| "thread_ok c (CloseTimeout_call d pc) =
     ((pc \<notin> {C_cancel, C_stop, C_cas} \<longrightarrow> started c) \<and> (pc = C_return \<longrightarrow> wait c = 1))"
| "thread_ok c (runCmd_thread pc code) = started c"
| "thread_ok c Start_go = started c"
| "thread_ok c t = True"

definition inv_threads :: "config \<Rightarrow> bool" where
  "inv_threads cfg = (\<forall>t \<in> set (threads cfg). thread_ok (shared cfg) t)"

definition inv :: "config \<Rightarrow> bool" where
  "inv cfg = (inv_counts cfg \<and> inv_threads cfg)"

text \<open>
  When no event is a call of \<open>Start\<close>: no thread is part of a start, no process is
  spawned and the accumulated error stays clean.
\<close>

fun unstarted :: "thread \<Rightarrow> bool" where
  "unstarted Start_call = False"
| "unstarted Start_go = False"
| "unstarted (runCmd_thread pc code) = False"
| "unstarted (pipeInput_thread pc) = False"
| "unstarted t = True"

definition inv_unstarted :: "config \<Rightarrow> bool" where
  "inv_unstarted cfg =
     ((\<forall>t \<in> set (threads cfg). unstarted t) \<and> spawns (shared cfg) = 0
      \<and> clean (waitErr (shared cfg)))"

text \<open>
  When no call has a positive timeout: no call is at the \<open>select\<close> or at the signal, no
  kill signal has been sent and nothing has panicked.
\<close>

fun untimed :: "thread \<Rightarrow> bool" where
  "untimed (CloseTimeout_call d pc) = (d \<le> 0 \<and> pc \<noteq> C_select \<and> pc \<noteq> C_signal)"
| "untimed t = True"

definition inv_untimed :: "config \<Rightarrow> bool" where
  "inv_untimed cfg =
     ((\<forall>t \<in> set (threads cfg). untimed t) \<and> kills (shared cfg) = 0
      \<and> \<not> panicked (shared cfg))"

section \<open>Properties of command specifications\<close>

lemma commandCollect_command: "fst (commandCollect cmd) = Command cmd"
  by (simp add: commandCollect_def Let_def)

lemma commandCollect_env_nil: "snd (snd (commandCollect cmd)) = []"
  by (simp add: commandCollect_def Let_def)

lemma commandCollect_args_when_env:
  "Environment cmd = Some e \<Longrightarrow> fst (snd (commandCollect cmd)) = e"
  by (simp add: commandCollect_def Let_def)

lemma commandCollect_no_env:
  "Environment cmd = None \<Longrightarrow>
     commandCollect cmd = (Command cmd, (case Args cmd of Some a \<Rightarrow> a | None \<Rightarrow> []), [])"
  by (simp add: commandCollect_def Let_def)

text \<open>
  Claim C1 (collection uses each capability independently; for a spec offering only the
  env capability the collected args are empty and the collected env is the spec's
  environment). The code does otherwise: for the env-only spec with command \<open>ls\<close> and
  environment \<open>[A=1]\<close>, the environment entries come back in the args slot and the env
  slot is empty.
\<close>

theorem commandCollect_env_only_swapped:
  "commandCollect \<lparr>Command = ''ls'', Args = None, Environment = Some [''A=1'']\<rparr>
     = (''ls'', [''A=1''], [])"
  by (simp add: commandCollect_def)

text \<open>
  Claim C2 (\<open>WithEnv\<close> keeps command and args and appends the additions to the existing
  environment). The code, on the spec \<open>NewCommandArgsEnv("ls", ["-l"], ["A=1"])\<close> with
  the addition \<open>B=2\<close>, returns a spec whose args are the old environment and whose
  environment holds the addition only: the argument \<open>-l\<close> and the entry \<open>A=1\<close> are
  lost from their places.
\<close>

theorem WithEnv_loses_args_and_env:
  "WithEnv (iface (NewCommandArgsEnv ''ls'' [''-l''] [''A=1''])) [''B=2'']
     = \<lparr>command = ''ls'', args = [''A=1''], env = [''B=2'']\<rparr>"
  by (simp add: WithEnv_def commandCollect_def iface_def NewCommandArgsEnv_def)

section \<open>Properties of the wire format\<close>

lemma ValidString_coerce: "ValidString s \<Longrightarrow> coerce s = s"
  by (induction s rule: coerce.induct) (auto split: option.splits)

lemma coerce_tags:
  "coerce ''start'' = ''start''" "coerce ''exit'' = ''exit''" "coerce ''stdio'' = ''stdio''"
  "coerce ''stdin'' = ''stdin''" "coerce ''stderr'' = ''stderr''" "coerce ''stdout'' = ''stdout''"
  by (simp_all add: rune_width_def)

declare coerce.simps [simp del]

lemma ascii_valid: "\<forall>c \<in> set s. (of_char c :: nat) < 0x80 \<Longrightarrow> ValidString s"
  by (induction s) (auto simp: rune_width_def)

lemmas json_defs = roundtrip_def json_Marshal_def json_Unmarshal_def decode_member_def
  JSONString_MarshalJSON_def JSONString_UnmarshalJSON_def Data_MarshalJSON_def
  Data_UnmarshalJSON_def json_Marshal_string_def json_Unmarshal_string_def coerce_tags

lemma roundtrip_encode_fails:
  "Time_MarshalJSON tc (Time m) = Inl e \<Longrightarrow> roundtrip tc T m = Inl e"
  by (simp add: roundtrip_def json_Marshal_def)

lemma roundtrip_time_fails:
  "Time_MarshalJSON tc (Time m) = Inr s \<Longrightarrow> Time_UnmarshalJSON tc s = Inl e \<Longrightarrow>
     roundtrip tc T m = Inl e"
  by (cases m; cases T) (simp_all add: json_defs)

lemma roundtrip_coerced:
  "Time_MarshalJSON tc (Time m) = Inr s \<Longrightarrow> Time_UnmarshalJSON tc s = Inr t' \<Longrightarrow>
     roundtrip tc (type_of m) m = Inr (with_Time t' (with_Data (coerce (Data m)) m))"
proof (cases m)
  case (stdioMessage K t d)
  assume "Time_MarshalJSON tc (Time m) = Inr s" "Time_UnmarshalJSON tc s = Inr t'"
  with stdioMessage show ?thesis by (cases K) (simp_all add: json_defs)
qed (simp_all add: json_defs)

lemma mismatch_fails:
  assumes "Time_MarshalJSON tc (Time m) = Inr s" and "Time_UnmarshalJSON tc s = Inr t'"
    and ne: "T \<noteq> type_of m"
  shows "\<exists>x y. roundtrip tc T m = Inl (FormatError x y)"
proof (cases m)
  case (StartMessage t)
  with assms show ?thesis by (cases T) (simp_all add: json_defs)
next
  case (ExitMessage t code)
  with assms show ?thesis by (cases T) (simp_all add: json_defs)
next
  case (stdioMessage K t d)
  show ?thesis
  proof (cases T)
    case (stdioMessage_type K')
    with assms stdioMessage show ?thesis by (cases K; cases K') (simp_all add: json_defs)
  qed (use assms stdioMessage in \<open>simp_all add: json_defs\<close>)
qed

text \<open>
  Claim C8, amended. When the time of a message cannot be encoded, encoding the message
  fails. When it can, and the text of the time can be read back, encoding a message and
  decoding the result into the type of the message gives the message back with the
  time as read back and the data coerced to valid UTF-8: the
  code and the stdio variant are always reproduced, the time when the encoding of
  \<open>time.Time\<close> reproduces it, the data bytes when they are valid UTF-8. Decoding into
  any other message type fails with the format error of the tag check.
\<close>

theorem message_roundtrip:
  "(\<forall>e. Time_MarshalJSON tc (Time m) = Inl e \<longrightarrow> roundtrip tc T m = Inl e)
   \<and> (\<forall>s t'. Time_MarshalJSON tc (Time m) = Inr s \<and> Time_UnmarshalJSON tc s = Inr t' \<longrightarrow>
          roundtrip tc (type_of m) m = Inr (with_Time t' (with_Data (coerce (Data m)) m))
        \<and> (t' = Time m \<and> ValidString (Data m) \<longrightarrow> roundtrip tc (type_of m) m = Inr m)
        \<and> (T \<noteq> type_of m \<longrightarrow> (\<exists>x y. roundtrip tc T m = Inl (FormatError x y))))"
proof -
  have same: "with_Time (Time m) m = m" by (cases m) auto
  have "with_Data (coerce (Data m)) m = m" if "ValidString (Data m)"
    using ValidString_coerce [OF that] by (cases m) auto
  with same show ?thesis
    using roundtrip_encode_fails [of tc m _ T]
      roundtrip_coerced [of tc m] mismatch_fails [of tc m _ _ T]
    by (intro conjI allI impI; (elim conjE)?) (auto simp del: with_Time.simps with_Data.simps)
qed

theorem message_roundtrip_witness:
  "Time_MarshalJSON epoch_codec (Time (StdoutMessage 0 [CHR 0xC3, CHR 0xA9]))
     = Inr ''1970-01-01T00:00:00Z''
   \<and> Time_UnmarshalJSON epoch_codec ''1970-01-01T00:00:00Z''
       = Inr (Time (StdoutMessage 0 [CHR 0xC3, CHR 0xA9]))
   \<and> ValidString (Data (StdoutMessage 0 [CHR 0xC3, CHR 0xA9]))
   \<and> roundtrip epoch_codec (type_of (StdoutMessage 0 [CHR 0xC3, CHR 0xA9]))
         (StdoutMessage 0 [CHR 0xC3, CHR 0xA9])
       = Inr (StdoutMessage 0 [CHR 0xC3, CHR 0xA9])
   \<and> ExitMessage_type \<noteq> type_of (StdoutMessage 0 [CHR 0xC3, CHR 0xA9])
   \<and> roundtrip epoch_codec ExitMessage_type (StdoutMessage 0 [CHR 0xC3, CHR 0xA9])
       = Inl (FormatError ''exit'' ''stdio'')
   \<and> Time_MarshalJSON epoch_codec (Time (StartMessage 1)) = Inl (OSError ''Time.MarshalJSON'')
   \<and> roundtrip epoch_codec StartMessage_type (StartMessage 1) = Inl (OSError ''Time.MarshalJSON'')"
proof -
  have v: "ValidString (Data (StdoutMessage 0 [CHR 0xC3, CHR 0xA9]))"
    by (simp add: rune_width_def accept_range_def)
  from message_roundtrip [of epoch_codec "StdoutMessage 0 [CHR 0xC3, CHR 0xA9]" ExitMessage_type]
    message_roundtrip [of epoch_codec "StartMessage 1" StartMessage_type] v
  show ?thesis by (simp add: json_defs epoch_codec_def)
qed

text \<open>
  Claim C8 as stated fails where the data is not valid UTF-8, also for a time that is
  written and read back unchanged: the stdout chunk of the single byte \<open>0xFF\<close> comes
  back as the three bytes of U+FFFD.
\<close>

theorem message_roundtrip_lossy:
  "roundtrip epoch_codec (type_of (StdoutMessage 0 [CHR 0xFF])) (StdoutMessage 0 [CHR 0xFF])
     = Inr (StdoutMessage 0 [CHR 0xEF, CHR 0xBF, CHR 0xBD])
   \<and> roundtrip epoch_codec (type_of (StdoutMessage 0 [CHR 0xFF])) (StdoutMessage 0 [CHR 0xFF])
     \<noteq> Inr (StdoutMessage 0 [CHR 0xFF])"
  by (simp add: json_defs epoch_codec_def coerce.simps rune_width_def accept_range_def
      replacement_def)

section \<open>Properties of the writer shims\<close>

text \<open>
  Claim C10. While the context is not cancelled, \<open>Write\<close> of a chunk publishes one
  message of the writer's variant with the bytes of the chunk and returns its length
  and no error; once the context is cancelled, \<open>Write\<close> leaves the controller as it is
  and returns zero and the context's error.
\<close>

theorem Write_publishes_or_drops:
  "(ctx_err c = None \<longrightarrow>
      Write K t b c = ((length b, None), c\<lparr>out := Stream_Push [stdioMessage K t b] (out c)\<rparr>)
    \<and> (\<not> closed (out c) \<longrightarrow>
          published (out (snd (Write K t b c))) = published (out c) @ [stdioMessage K t b]))
   \<and> (ctx_err c \<noteq> None \<longrightarrow> Write K t b c = ((0, ctx_err c), c))"
  by (cases K) (auto simp: Write_def NewStdioMessage_def Stream_Push_def)

theorem Write_publishes_or_drops_witness:
  "ctx_err New = None \<and> \<not> closed (out New)
   \<and> Write stdout 7 ''hi'' New = ((2, None), New\<lparr>out := \<lparr>published = [StdoutMessage 7 ''hi''], closed = False\<rparr>\<rparr>)
   \<and> ctx_err (New\<lparr>ctx_err := Some Canceled\<rparr>) \<noteq> None
   \<and> Write stderr 7 ''hi'' (New\<lparr>ctx_err := Some Canceled\<rparr>) = ((0, Some Canceled), New\<lparr>ctx_err := Some Canceled\<rparr>)"
  using Write_publishes_or_drops [of New stdout 7 "''hi''"]
    Write_publishes_or_drops [of "New\<lparr>ctx_err := Some Canceled\<rparr>" stderr 7 "''hi''"]
  by (simp add: New_def Stream_Push_def)

section \<open>Properties of the input pump\<close>

lemma pipeInput_body_frame:
  "pipeInput_body ev c = (c', go) \<Longrightarrow>
     ctx_err c' = ctx_err c \<and> closed (out c') = closed (out c) \<and> waitErr c' = waitErr c
     \<and> wait c' = wait c \<and> started c' = started c \<and> stdin_closes c' = stdin_closes c"
  by (auto simp: pipeInput_body_def Let_def Stream_Push_def split: select.splits option.splits if_splits)

lemma pipeInput_body_effect:
  "\<not> closed (out c) \<Longrightarrow> pipeInput_body ev c = (c', go) \<Longrightarrow>
     go = (\<not> stops ev)
     \<and> stdin_written c' = stdin_written c @ concat (map snd (accepted [ev]))
     \<and> published (out c') = published (out c) @ map (\<lambda>(t, b). StdinMessage t b) (accepted [ev])"
  by (auto simp: pipeInput_body_def Let_def Stream_Push_def stops_def NewStdioMessage_def
      split: select.splits option.splits if_splits)

lemma accepted_Cons:
  "accepted (ev # evs) = accepted [ev] @ (if stops ev then [] else accepted evs)"
  by (auto simp: stops_def split: select.splits option.splits)

lemma pipeInput_loop_effect:
  "ctx_err c = None \<Longrightarrow> \<not> closed (out c) \<Longrightarrow>
     snd (pipeInput_loop evs c) = (\<exists>ev \<in> set evs. stops ev)
     \<and> stdin_written (fst (pipeInput_loop evs c))
         = stdin_written c @ concat (map snd (accepted evs))
     \<and> published (out (fst (pipeInput_loop evs c)))
         = published (out c) @ map (\<lambda>(t, b). StdinMessage t b) (accepted evs)
     \<and> waitErr (fst (pipeInput_loop evs c)) = waitErr c
     \<and> stdin_closes (fst (pipeInput_loop evs c)) = stdin_closes c"
proof (induction evs arbitrary: c)
  case Nil
  then show ?case by (simp add: pipeInput_loop.simps)
next
  case (Cons ev evs)
  obtain c' go where b: "pipeInput_body ev c = (c', go)" by (cases "pipeInput_body ev c") auto
  from pipeInput_body_frame [OF b] Cons.prems
  have f: "ctx_err c' = None" "\<not> closed (out c')" "waitErr c' = waitErr c"
    "stdin_closes c' = stdin_closes c" by auto
  from pipeInput_body_effect [OF Cons.prems(2) b]
  have e: "go = (\<not> stops ev)"
    "stdin_written c' = stdin_written c @ concat (map snd (accepted [ev]))"
    "published (out c') = published (out c) @ map (\<lambda>(t, b). StdinMessage t b) (accepted [ev])"
    by auto
  show ?case
  proof (cases go)
    case True
    then have l: "pipeInput_loop (ev # evs) c = pipeInput_loop evs c'"
      using Cons.prems(1) b by (simp add: pipeInput_loop.simps [of "ev # evs"])
    from True e(1) have ns: "\<not> stops ev" by simp
    from Cons.IH [OF f(1) f(2)] show ?thesis
      unfolding l accepted_Cons [of ev evs] using ns e(2,3) f(3,4) by simp
  next
    case False
    then have l: "pipeInput_loop (ev # evs) c = (c', True)"
      using Cons.prems(1) b by (simp add: pipeInput_loop.simps [of "ev # evs"])
    from False e(1) have ns: "stops ev" by simp
    show ?thesis
      unfolding l accepted_Cons [of ev evs] using ns e(2,3) f(3,4) by simp
  qed
qed

lemma accepted_nth:
  "i < length (accepted evs) \<Longrightarrow>
     i < length evs
     \<and> (\<exists>d. chosen (evs ! i) = recv (Some d)
            \<and> accepted evs ! i = (echo_time (evs ! i), take (write_n (evs ! i)) (Input_bytes d)))"
proof (induction evs arbitrary: i)
  case Nil
  then show ?case by simp
next
  case (Cons ev evs)
  show ?case
  proof (cases i)
    case 0
    with Cons.prems show ?thesis by (auto split: select.splits option.splits)
  next
    case (Suc j)
    with Cons.prems have "j < length (accepted evs)"
      by (auto split: select.splits option.splits if_splits)
    from Cons.IH [OF this] Suc Cons.prems show ?thesis
      by (auto split: select.splits option.splits if_splits)
  qed
qed

lemma pipeInput_deferred_effect:
  "ctx_err (pipeInput_deferred c) \<noteq> None
   \<and> stdin_closes (pipeInput_deferred c) = stdin_closes c + 1
   \<and> stdin_written (pipeInput_deferred c) = stdin_written c
   \<and> out (pipeInput_deferred c) = out c"
  by (simp add: pipeInput_deferred_def cancel_def Let_def)

text \<open>
  Claim C7 (a short write is recorded if and only if fewer bytes were written than
  requested). The code records it for a complete write as well: the item \<open>ab\<close>, written
  in full with no error, is echoed and the line \<open>incomplete write of stdin\<close> is logged.
  The pump goes on and the accumulated error is untouched.
\<close>

theorem pipeInput_logs_complete_write:
  "pipeInput_body \<lparr>chosen = recv (Some (NewInput ''ab'')), write_n = 2, write_err = None, echo_time = 0\<rparr> New
     = (New\<lparr>out := \<lparr>published = [StdinMessage 0 ''ab''], closed = False\<rparr>,
            stdin_written := ''ab'', slog := [''incomplete write of stdin'']\<rparr>, True)"
  by (simp add: pipeInput_body_def NewInput_def New_def Stream_Push_def NewStdioMessage_def Let_def)

text \<open>
  Claim C9. The events are the receives of the pump's subscription in the order of the
  channel, which is the order of \<open>Push\<close>. Started with the context cancelled, the pump
  ends at once. Otherwise it writes the items to stdin in that order and publishes for
  each item handled one stdin echo with exactly the bytes written; the \<open>i\<close>-th echo
  belongs to the \<open>i\<close>-th event. It ends exactly when an event is a write failure, the
  closure of the channel or the cancellation, and then cancels the context and closes
  stdin.
\<close>

theorem pipeInput_fifo_echo:
  "(ctx_err c \<noteq> None \<longrightarrow> pipeInput evs c = (pipeInput_deferred c, True))
   \<and> (ctx_err c = None \<and> \<not> closed (out c) \<longrightarrow>
        stdin_written (fst (pipeInput evs c)) = stdin_written c @ concat (map snd (accepted evs))
      \<and> published (out (fst (pipeInput evs c)))
          = published (out c) @ map (\<lambda>(t, b). StdinMessage t b) (accepted evs)
      \<and> snd (pipeInput evs c) = (\<exists>ev \<in> set evs. stops ev)
      \<and> (snd (pipeInput evs c) \<longrightarrow>
            ctx_err (fst (pipeInput evs c)) \<noteq> None
          \<and> stdin_closes (fst (pipeInput evs c)) = stdin_closes c + 1))
   \<and> (\<forall>i < length (accepted evs).
        i < length evs
        \<and> (\<exists>d. chosen (evs ! i) = recv (Some d)
               \<and> accepted evs ! i = (echo_time (evs ! i), take (write_n (evs ! i)) (Input_bytes d))))"
proof -
  have 1: "ctx_err c \<noteq> None \<longrightarrow> pipeInput evs c = (pipeInput_deferred c, True)"
    by (simp add: pipeInput_def pipeInput_loop.simps [of evs c])
  have 2: "ctx_err c = None \<and> \<not> closed (out c) \<longrightarrow>
        stdin_written (fst (pipeInput evs c)) = stdin_written c @ concat (map snd (accepted evs))
      \<and> published (out (fst (pipeInput evs c)))
          = published (out c) @ map (\<lambda>(t, b). StdinMessage t b) (accepted evs)
      \<and> snd (pipeInput evs c) = (\<exists>ev \<in> set evs. stops ev)
      \<and> (snd (pipeInput evs c) \<longrightarrow>
            ctx_err (fst (pipeInput evs c)) \<noteq> None
          \<and> stdin_closes (fst (pipeInput evs c)) = stdin_closes c + 1)"
  proof
    assume a: "ctx_err c = None \<and> \<not> closed (out c)"
    obtain c' ended where l: "pipeInput_loop evs c = (c', ended)"
      by (cases "pipeInput_loop evs c") auto
    from a pipeInput_loop_effect [of c evs] l
    have e: "ended = (\<exists>ev \<in> set evs. stops ev)"
      "stdin_written c' = stdin_written c @ concat (map snd (accepted evs))"
      "published (out c') = published (out c) @ map (\<lambda>(t, b). StdinMessage t b) (accepted evs)"
      "stdin_closes c' = stdin_closes c"
      by auto
    show "stdin_written (fst (pipeInput evs c)) = stdin_written c @ concat (map snd (accepted evs))
      \<and> published (out (fst (pipeInput evs c)))
          = published (out c) @ map (\<lambda>(t, b). StdinMessage t b) (accepted evs)
      \<and> snd (pipeInput evs c) = (\<exists>ev \<in> set evs. stops ev)
      \<and> (snd (pipeInput evs c) \<longrightarrow>
            ctx_err (fst (pipeInput evs c)) \<noteq> None
          \<and> stdin_closes (fst (pipeInput evs c)) = stdin_closes c + 1)"
      using e pipeInput_deferred_effect [of c'] by (cases ended) (simp_all add: pipeInput_def l)
  qed
  from 1 2 accepted_nth [of _ evs] show ?thesis by blast
qed

theorem pipeInput_fifo_echo_witness:
  "ctx_err New = None \<and> \<not> closed (out New)
   \<and> stdin_written (fst (pipeInput
        [\<lparr>chosen = recv (Some (NewInputln ''a'')), write_n = 2, write_err = None, echo_time = 1\<rparr>,
         \<lparr>chosen = recv (Some (NewInputln ''b'')), write_n = 1, write_err = Some ''EPIPE'', echo_time = 2\<rparr>,
         \<lparr>chosen = recv (Some (NewInputln ''c'')), write_n = 2, write_err = None, echo_time = 3\<rparr>] New))
       = [CHR ''a'', CHR 0x0A, CHR ''b'']
   \<and> published (out (fst (pipeInput
        [\<lparr>chosen = recv (Some (NewInputln ''a'')), write_n = 2, write_err = None, echo_time = 1\<rparr>,
         \<lparr>chosen = recv (Some (NewInputln ''b'')), write_n = 1, write_err = Some ''EPIPE'', echo_time = 2\<rparr>,
         \<lparr>chosen = recv (Some (NewInputln ''c'')), write_n = 2, write_err = None, echo_time = 3\<rparr>] New)))
       = [StdinMessage 1 [CHR ''a'', CHR 0x0A], StdinMessage 2 ''b'']
   \<and> snd (pipeInput
        [\<lparr>chosen = recv (Some (NewInputln ''a'')), write_n = 2, write_err = None, echo_time = 1\<rparr>,
         \<lparr>chosen = recv (Some (NewInputln ''b'')), write_n = 1, write_err = Some ''EPIPE'', echo_time = 2\<rparr>,
         \<lparr>chosen = recv (Some (NewInputln ''c'')), write_n = 2, write_err = None, echo_time = 3\<rparr>] New)
   \<and> stdin_closes (fst (pipeInput
        [\<lparr>chosen = recv (Some (NewInputln ''a'')), write_n = 2, write_err = None, echo_time = 1\<rparr>,
         \<lparr>chosen = recv (Some (NewInputln ''b'')), write_n = 1, write_err = Some ''EPIPE'', echo_time = 2\<rparr>,
         \<lparr>chosen = recv (Some (NewInputln ''c'')), write_n = 2, write_err = None, echo_time = 3\<rparr>] New))
       = 1"
  using pipeInput_fifo_echo [of New
        "[\<lparr>chosen = recv (Some (NewInputln ''a'')), write_n = 2, write_err = None, echo_time = 1\<rparr>,
         \<lparr>chosen = recv (Some (NewInputln ''b'')), write_n = 1, write_err = Some ''EPIPE'', echo_time = 2\<rparr>,
         \<lparr>chosen = recv (Some (NewInputln ''c'')), write_n = 2, write_err = None, echo_time = 3\<rparr>]"]
  by (simp add: New_def NewInputln_def stops_def)

section \<open>Properties of the process-wait task\<close>

lemma wraps_refl: "wraps e e"
  by (cases e) auto

lemma holds_Join_right: "holds (errors_Join [w, Some x]) x"
  by (cases w) (auto simp: holds_def errors_Join_def List.map_filter_simps wraps_refl)

lemma holds_Join_left: "holds w x \<Longrightarrow> holds (errors_Join [w, y]) x"
  by (cases w; cases y) (auto simp: holds_def errors_Join_def List.map_filter_simps)

text \<open>
  Claim C4, amended. On a controller whose stream is open, \<open>runCmd\<close> publishes the start
  message and, as the last message, the exit message with the exit code, and closes the
  stream with it; it closes the channel of \<open>Done()\<close> once. When \<open>cmd.cmd.Run()\<close> returns
  nil the code is 0 and only the result of closing stdin is joined to the accumulated
  error. When it returns an error that holds an \<open>*exec.ExitError\<close>, the code is what
  \<open>ExitCode()\<close> returns, which is \<open>-1\<close> for a process that a signal terminated; a
  non-zero code is recorded as an exit-code error, and nothing else of the failure is
  recorded: the accumulated error is the former one joined with the exit-code error
  and with the result of closing stdin. When it returns an error that holds no
  \<open>*exec.ExitError\<close>, the code is \<open>-1\<close> and the accumulated error holds both that error
  and the exit-code error of \<open>-1\<close>.
\<close>

theorem runCmd_exit_mapping:
  "\<not> closed (out c) \<Longrightarrow>
     closed (out (runCmd e c)) \<and> wait (runCmd e c) = wait c + 1
   \<and> (run_err e = None \<longrightarrow>
         published (out (runCmd e c))
           = published (out c) @ [StartMessage (start_time e), ExitMessage (exit_time e) 0]
       \<and> waitErr (runCmd e c) = errors_Join [waitErr c, map_option OSError (close_err e)])
   \<and> (\<forall>err n. run_err e = Some err \<and> As_ExitError err = Some n \<longrightarrow>
         published (out (runCmd e c))
           = published (out c) @ [StartMessage (start_time e), ExitMessage (exit_time e) n]
       \<and> (n \<noteq> 0 \<longrightarrow> holds (waitErr (runCmd e c)) (ErrExitCode n))
       \<and> waitErr (runCmd e c)
           = errors_Join [if n = 0 then waitErr c
                          else errors_Join [waitErr c, Some (ErrExitCode n)],
                          map_option OSError (close_err e)])
   \<and> (\<forall>err. run_err e = Some err \<and> As_ExitError err = None \<longrightarrow>
         published (out (runCmd e c))
           = published (out c) @ [StartMessage (start_time e), ExitMessage (exit_time e) (- 1)]
       \<and> holds (waitErr (runCmd e c)) err
       \<and> holds (waitErr (runCmd e c)) (ErrExitCode (- 1)))"
  by (cases "run_err e")
     (auto simp: runCmd_def Let_def runCmd_body_def sendCode_def cleanupCmd_def cleanupCmd_out_def
        cleanupCmd_stdin_def close_wait_def call_Run_def Stream_Push_def Stream_Close_def
        NewStartMessage_def NewExitMessage_def holds_Join_left holds_Join_right
      split: option.splits)

theorem runCmd_exit_mapping_witness:
  "\<not> closed (out New)
   \<and> run_err \<lparr>start_time = 1, can_start = False, run_err = Some (OSError ''fork failed''), exit_time = 2, close_err = None\<rparr>
       = Some (OSError ''fork failed'')
   \<and> As_ExitError (OSError ''fork failed'') = None
   \<and> published (out (runCmd \<lparr>start_time = 1, can_start = False, run_err = Some (OSError ''fork failed''), exit_time = 2, close_err = None\<rparr> New))
       = [StartMessage 1, ExitMessage 2 (- 1)]
   \<and> holds (waitErr (runCmd \<lparr>start_time = 1, can_start = False, run_err = Some (OSError ''fork failed''), exit_time = 2, close_err = None\<rparr> New))
        (OSError ''fork failed'')
   \<and> holds (waitErr (runCmd \<lparr>start_time = 1, can_start = False, run_err = Some (OSError ''fork failed''), exit_time = 2, close_err = None\<rparr> New))
        (ErrExitCode (- 1))
   \<and> run_err \<lparr>start_time = 1, can_start = True, run_err = Some (ExitError 3), exit_time = 2, close_err = None\<rparr>
       = Some (ExitError 3)
   \<and> As_ExitError (ExitError 3) = Some 3
   \<and> published (out (runCmd \<lparr>start_time = 1, can_start = True, run_err = Some (ExitError 3), exit_time = 2, close_err = None\<rparr> New))
       = [StartMessage 1, ExitMessage 2 3]
   \<and> holds (waitErr (runCmd \<lparr>start_time = 1, can_start = True, run_err = Some (ExitError 3), exit_time = 2, close_err = None\<rparr> New))
        (ErrExitCode 3)
   \<and> waitErr (runCmd \<lparr>start_time = 1, can_start = True, run_err = Some (ExitError 3), exit_time = 2, close_err = None\<rparr> New)
       = Some (joinError [joinError [ErrExitCode 3]])
   \<and> run_err \<lparr>start_time = 1, can_start = True, run_err = None, exit_time = 2, close_err = None\<rparr> = None
   \<and> published (out (runCmd \<lparr>start_time = 1, can_start = True, run_err = None, exit_time = 2, close_err = None\<rparr> New))
       = [StartMessage 1, ExitMessage 2 0]
   \<and> waitErr (runCmd \<lparr>start_time = 1, can_start = True, run_err = None, exit_time = 2, close_err = None\<rparr> New) = None"
proof -
  let ?e = "\<lparr>start_time = 1, can_start = False, run_err = Some (OSError ''fork failed''), exit_time = 2, close_err = None\<rparr>"
  let ?f = "\<lparr>start_time = 1, can_start = True, run_err = Some (ExitError 3), exit_time = 2, close_err = None\<rparr>"
  let ?g = "\<lparr>start_time = 1, can_start = True, run_err = None, exit_time = 2, close_err = None\<rparr>"
  have o: "\<not> closed (out New)" by (simp add: New_def)
  from runCmd_exit_mapping [OF o, of ?e] runCmd_exit_mapping [OF o, of ?f]
    runCmd_exit_mapping [OF o, of ?g] o show ?thesis
    by (simp add: New_def errors_Join_def List.map_filter_simps holds_def)
qed

text \<open>
  Claim C4 as stated fails for a process that a signal terminated. No exit code can be
  read of it: \<open>cmd.cmd.Run()\<close> returns an \<open>*exec.ExitError\<close> whose \<open>ExitCode()\<close> is \<open>-1\<close>.
  \<open>runCmd\<close> publishes the exit message with the code \<open>-1\<close> and records the exit-code
  error of \<open>-1\<close>, and the accumulated error does not hold the underlying failure.
\<close>

theorem runCmd_signal_killed_unrecorded:
  "published (out (runCmd \<lparr>start_time = 1, can_start = True, run_err = Some (ExitError (- 1)), exit_time = 2, close_err = None\<rparr> New))
     = [StartMessage 1, ExitMessage 2 (- 1)]
   \<and> waitErr (runCmd \<lparr>start_time = 1, can_start = True, run_err = Some (ExitError (- 1)), exit_time = 2, close_err = None\<rparr> New)
       = Some (joinError [joinError [ErrExitCode (- 1)]])
   \<and> holds (waitErr (runCmd \<lparr>start_time = 1, can_start = True, run_err = Some (ExitError (- 1)), exit_time = 2, close_err = None\<rparr> New))
        (ErrExitCode (- 1))
   \<and> \<not> holds (waitErr (runCmd \<lparr>start_time = 1, can_start = True, run_err = Some (ExitError (- 1)), exit_time = 2, close_err = None\<rparr> New))
        (ExitError (- 1))"
  by (simp add: runCmd_def Let_def runCmd_body_def sendCode_def cleanupCmd_def cleanupCmd_out_def
        cleanupCmd_stdin_def close_wait_def call_Run_def Stream_Push_def Stream_Close_def
        NewStartMessage_def NewExitMessage_def New_def errors_Join_def List.map_filter_simps
        holds_def)

section \<open>Invariants of the concurrent controller\<close>

lemma step_cases [case_names stutter move]:
  obtains "step s cfg = cfg"
  | i e t' c' new where "s = (i, e)" "\<not> panicked (shared cfg)" "i < length (threads cfg)"
      "thread_step e (threads cfg ! i) (shared cfg) = Some (t', c', new)"
      "step s cfg = \<lparr>shared = c', threads = (threads cfg)[i := t'] @ new\<rparr>"
proof (cases s)
  case (Pair i e)
  show ?thesis
  proof (cases "\<not> panicked (shared cfg) \<and> i < length (threads cfg)
      \<and> thread_step e (threads cfg ! i) (shared cfg) \<noteq> None")
    case False
    then have "step s cfg = cfg" using Pair by (auto simp: step_def split: option.splits)
    then show ?thesis by (rule that(1))
  next
    case True
    then obtain t' c' new where
      st: "thread_step e (threads cfg ! i) (shared cfg) = Some (t', c', new)" by auto
    with True Pair have "step s cfg = \<lparr>shared = c', threads = (threads cfg)[i := t'] @ new\<rparr>"
      by (simp add: step_def)
    with Pair True st show ?thesis by (auto intro: that(2))
  qed
qed

lemma exec_append: "exec (a @ b) cfg = exec b (exec a cfg)"
  by (simp add: exec_def)

lemma exec_Cons: "exec (s # sched) cfg = exec sched (step s cfg)"
  by (simp add: exec_def)

lemma set_step_threads:
  assumes "u \<in> set (ts[i := t'] @ new)"
  shows "u = t' \<or> u \<in> set ts \<or> u \<in> set new"
  using assms set_update_subset_insert [of ts i t'] by auto

lemma total_update: "i < length ts \<Longrightarrow> total f (ts[i := t] @ new) + f (ts ! i) = total f ts + f t + total f new"
  unfolding total_def
  by (induction ts arbitrary: i) (auto split: nat.splits)

lemma total_ge: "i < length ts \<Longrightarrow> f (ts ! i) \<le> total f ts"
  unfolding total_def
  by (induction ts arbitrary: i) (auto simp: nth_Cons split: nat.splits intro: trans_le_add2)

lemmas step_defs = total_def cancel_def stop_def cleanupCmd_out_def cleanupCmd_stdin_def close_wait_def
        runCmd_body_def sendCode_def Write_def pipeInput_body_def call_Run_def Let_def

subsection \<open>Counting\<close>

lemma own_step:
  "thread_step e t c = Some (t', c', new) \<Longrightarrow>
     own t' + total own new + wait c' + (if started c then 1 else 0)
       = own t + wait c + (if started c' then 1 else 0)"
  by (induction e t c rule: thread_step.induct)
     (auto simp: step_defs
        split: if_splits once.splits option.splits prod.splits select.splits)

lemma spawn_step:
  "thread_step e t c = Some (t', c', new) \<Longrightarrow>
     may_spawn t' + total may_spawn new + spawns c' + (if started c then 1 else 0)
       \<le> may_spawn t + spawns c + (if started c' then 1 else 0)"
  by (induction e t c rule: thread_step.induct)
     (auto simp: step_defs
        split: if_splits once.splits option.splits prod.splits select.splits)

lemma once_step:
  "thread_step e t c = Some (t', c', new) \<Longrightarrow> (in_once t > 0 \<longrightarrow> killOnce c = Running) \<Longrightarrow>
     in_once t' + total in_once new + (if killOnce c = Running then 1 else 0)
       = in_once t + (if killOnce c' = Running then 1 else 0)"
  by (induction e t c rule: thread_step.induct)
     (auto simp: step_defs
        split: if_splits once.splits option.splits prod.splits select.splits)

lemma kill_step:
  "thread_step e t c = Some (t', c', new) \<Longrightarrow>
     may_kill t' + total may_kill new + kills c' + (if killOnce c = Idle then 0 else 1)
       \<le> may_kill t + kills c + (if killOnce c' = Idle then 0 else 1)"
  by (induction e t c rule: thread_step.induct)
     (auto simp: step_defs
        split: if_splits once.splits option.splits prod.splits select.splits)

lemma total_call_thread [simp]:
  "total own (map call_thread calls) = 0"
  "total may_spawn (map call_thread calls) = 0"
  "total in_once (map call_thread calls) = 0"
  "total may_kill (map call_thread calls) = 0"
  unfolding total_def
  by (induction calls; (simp; fail)?; rename_tac a calls; case_tac a; simp)+

lemma inv_counts_init: "inv_counts (init calls)"
  by (simp add: inv_counts_def init_def New_def)

lemma inv_counts_step: "inv_counts cfg \<Longrightarrow> inv_counts (step s cfg)"
proof (cases s cfg rule: step_cases)
  case stutter
  assume "inv_counts cfg"
  with stutter show ?thesis by simp
next
  case (move i e t' c' new)
  assume I: "inv_counts cfg"
  let ?ts = "threads cfg" and ?c = "shared cfg"
  note st = move(4) and il = move(3)
  note U = total_update [OF il, of _ t' new]
  from I have A: "total own ?ts + wait ?c = (if started ?c then 1 else 0)"
    and B: "total may_spawn ?ts + spawns ?c \<le> (if started ?c then 1 else 0)"
    and C: "total in_once ?ts = (if killOnce ?c = Running then 1 else 0)"
    and D: "total may_kill ?ts + kills ?c \<le> (if killOnce ?c = Idle then 0 else 1)"
    by (simp_all add: inv_counts_def Let_def)
  have A': "total own (?ts[i := t'] @ new) + wait c' = (if started c' then 1 else 0)"
    using own_step [OF st] U [of own] A by (auto split: if_splits)
  have B': "total may_spawn (?ts[i := t'] @ new) + spawns c' \<le> (if started c' then 1 else 0)"
    using spawn_step [OF st] U [of may_spawn] B by (auto split: if_splits)
  have C': "total in_once (?ts[i := t'] @ new) = (if killOnce c' = Running then 1 else 0)"
  proof -
    have "in_once (?ts ! i) > 0 \<longrightarrow> killOnce ?c = Running"
      using total_ge [OF il, of in_once] C by (auto split: if_splits)
    from once_step [OF st this] U [of in_once] C show ?thesis
      by (auto split: if_splits)
  qed
  have D': "total may_kill (?ts[i := t'] @ new) + kills c' \<le> (if killOnce c' = Idle then 0 else 1)"
    using kill_step [OF st] U [of may_kill] D by (auto split: if_splits)
  show ?thesis
    unfolding move(5) inv_counts_def Let_def using A' B' C' D' by simp
qed

subsection \<open>Positions\<close>

lemma step_frame:
  "thread_step e t c = Some (t', c', new) \<Longrightarrow>
     (started c \<longrightarrow> started c') \<and> wait c \<le> wait c'
     \<and> (own t = 0 \<longrightarrow> wait c' = wait c \<and> waitErr c' = waitErr c)"
  by (induction e t c rule: thread_step.induct)
     (auto simp: step_defs
        split: if_splits once.splits option.splits prod.splits select.splits)

lemma thread_ok_frame:
  assumes "thread_step e t c = Some (t', c', new)" and "thread_ok c u"
    and "own t > 0 \<longrightarrow> wait c = 0"
  shows "thread_ok c' u"
proof -
  from step_frame [OF assms(1)]
  have 1: "started c \<longrightarrow> started c'" and 2: "own t = 0 \<longrightarrow> wait c' = wait c \<and> waitErr c' = waitErr c"
    by auto
  show ?thesis
  proof (cases "own t = 0")
    case True
    with 1 2 assms(2) show ?thesis by (cases u) auto
  next
    case False
    with assms(3) have "wait c = 0" by simp
    with 1 assms(2) show ?thesis by (cases u) auto
  qed
qed

lemma thread_ok_self:
  "thread_step e t c = Some (t', c', new) \<Longrightarrow> thread_ok c t \<Longrightarrow> wait c \<le> 1 \<Longrightarrow>
     thread_ok c' t' \<and> (\<forall>n \<in> set new. thread_ok c' n)"
  by (induction e t c rule: thread_step.induct)
     (auto simp: step_defs
        split: if_splits once.splits option.splits prod.splits select.splits)

lemma inv_threads_init: "inv_threads (init calls)"
proof -
  have "thread_ok New (call_thread a)" for a by (cases a) auto
  then show ?thesis by (auto simp: inv_threads_def init_def)
qed

lemma inv_init: "inv (init calls)"
  by (simp add: inv_def inv_counts_init inv_threads_init)

lemma inv_threads_step:
  assumes I: "inv_counts cfg" and T: "inv_threads cfg"
  shows "inv_threads (step s cfg)"
proof (cases s cfg rule: step_cases)
  case stutter
  with T show ?thesis by simp
next
  case (move i e t' c' new)
  let ?ts = "threads cfg" and ?c = "shared cfg"
  note st = move(4) and il = move(3)
  from I have A: "total own ?ts + wait ?c = (if started ?c then 1 else 0)"
    by (simp add: inv_counts_def Let_def)
  have w1: "wait ?c \<le> 1" using A by (auto split: if_splits)
  have ow: "own (?ts ! i) > 0 \<longrightarrow> wait ?c = 0"
    using total_ge [OF il, of own] A by (auto split: if_splits)
  have mem: "?ts ! i \<in> set ?ts" using il by simp
  with T have oki: "thread_ok ?c (?ts ! i)" by (simp add: inv_threads_def)
  from thread_ok_self [OF st oki w1]
  have self: "thread_ok c' t'" and new: "\<forall>n \<in> set new. thread_ok c' n" by auto
  have others: "thread_ok c' u" if "u \<in> set ?ts" for u
    using thread_ok_frame [OF st _ ow] T that by (simp add: inv_threads_def)
  have "thread_ok c' u" if "u \<in> set (?ts[i := t'] @ new)" for u
    using set_step_threads [OF that] self new others by auto
  then show ?thesis unfolding move(5) inv_threads_def by simp
qed

lemma inv_step: "inv cfg \<Longrightarrow> inv (step s cfg)"
  by (simp add: inv_def inv_counts_step inv_threads_step)

lemma inv_exec: "inv cfg \<Longrightarrow> inv (exec sched cfg)"
  unfolding exec_def
  by (induction sched arbitrary: cfg) (simp_all add: inv_step)

lemma inv_reachable: "inv (exec sched (init calls))"
  by (rule inv_exec [OF inv_init])

lemma returns_set: "r \<in> set (returns cfg) \<longleftrightarrow> Returned r \<in> set (threads cfg)"
proof -
  have "returned t = Some r \<longleftrightarrow> t = Returned r" for t by (cases t) auto
  then show ?thesis by (force simp: returns_def List.map_filter_def image_iff)
qed

lemma wait_mono_step: "wait (shared cfg) \<le> wait (shared (step s cfg))"
proof (cases s cfg rule: step_cases)
  case stutter
  then show ?thesis by simp
next
  case (move i e t' c' new)
  with step_frame [OF move(4)] show ?thesis by simp
qed

lemma wait_mono: "wait (shared cfg) \<le> wait (shared (exec sched cfg))"
proof (induction sched arbitrary: cfg)
  case Nil
  then show ?case by (simp add: exec_def)
next
  case (Cons s sched)
  from wait_mono_step [of cfg s] Cons [of "step s cfg"] show ?case
    by (simp add: exec_Cons)
qed

lemma Returned_persists_step:
  "i < length (threads cfg) \<Longrightarrow> threads cfg ! i = Returned r \<Longrightarrow>
     i < length (threads (step s cfg)) \<and> threads (step s cfg) ! i = Returned r"
proof (cases s cfg rule: step_cases)
  case stutter
  assume "i < length (threads cfg)" "threads cfg ! i = Returned r"
  with stutter show ?thesis by simp
next
  case (move j e t' c' new)
  assume a: "i < length (threads cfg)" "threads cfg ! i = Returned r"
  with move(4) have "j \<noteq> i" by auto
  with a show ?thesis unfolding move(5) by (simp add: nth_append)
qed

lemma Returned_persists:
  "i < length (threads cfg) \<Longrightarrow> threads cfg ! i = Returned r \<Longrightarrow>
     i < length (threads (exec sched cfg)) \<and> threads (exec sched cfg) ! i = Returned r"
proof (induction sched arbitrary: cfg)
  case Nil
  then show ?case by (simp add: exec_def)
next
  case (Cons s sched)
  from Returned_persists_step [OF Cons.prems, of s] Cons.IH [of "step s cfg"]
  show ?case by (simp add: exec_Cons)
qed

lemma crashed_stays: "panicked (shared cfg) \<Longrightarrow> exec rest cfg = cfg"
proof (induction rest)
  case Nil
  then show ?case by (simp add: exec_def)
next
  case (Cons s rest)
  then have "step s cfg = cfg" by (cases s) (simp add: step_def)
  with Cons show ?case by (simp add: exec_Cons)
qed

subsection \<open>Controllers never started\<close>

lemma clean_Join_OSError: "clean w \<Longrightarrow> clean (errors_Join [w, map_option OSError cl])"
  by (cases w; cases cl) (auto simp: clean_def errors_Join_def List.map_filter_simps)

lemma unstarted_step:
  "thread_step e t c = Some (t', c', new) \<Longrightarrow> unstarted t \<Longrightarrow>
     unstarted t' \<and> (\<forall>n \<in> set new. unstarted n) \<and> spawns c' = spawns c
     \<and> (clean (waitErr c) \<longrightarrow> clean (waitErr c'))"
  by (induction e t c rule: thread_step.induct)
     (auto simp: step_defs clean_Join_OSError
        split: if_splits once.splits option.splits prod.splits select.splits)

lemma untimed_step:
  "thread_step e t c = Some (t', c', new) \<Longrightarrow> untimed t \<Longrightarrow>
     untimed t' \<and> (\<forall>n \<in> set new. untimed n) \<and> kills c' = kills c
     \<and> panicked c' = panicked c"
  by (induction e t c rule: thread_step.induct)
     (auto simp: step_defs
        split: if_splits once.splits option.splits prod.splits select.splits)

lemma inv_unstarted_step: "inv_unstarted cfg \<Longrightarrow> inv_unstarted (step s cfg)"
proof (cases s cfg rule: step_cases)
  case stutter
  assume "inv_unstarted cfg"
  with stutter show ?thesis by simp
next
  case (move i e t' c' new)
  assume U: "inv_unstarted cfg"
  let ?ts = "threads cfg"
  have "?ts ! i \<in> set ?ts" using move(3) by simp
  with U have "unstarted (?ts ! i)" by (simp add: inv_unstarted_def)
  from unstarted_step [OF move(4) this] U
  have self: "unstarted t'" "\<forall>n \<in> set new. unstarted n" "spawns c' = 0" "clean (waitErr c')"
    by (auto simp: inv_unstarted_def)
  have "unstarted u" if "u \<in> set (?ts[i := t'] @ new)" for u
    using set_step_threads [OF that] self U by (auto simp: inv_unstarted_def)
  with self show ?thesis unfolding move(5) inv_unstarted_def by simp
qed

lemma inv_untimed_step: "inv_untimed cfg \<Longrightarrow> inv_untimed (step s cfg)"
proof (cases s cfg rule: step_cases)
  case stutter
  assume "inv_untimed cfg"
  with stutter show ?thesis by simp
next
  case (move i e t' c' new)
  assume U: "inv_untimed cfg"
  let ?ts = "threads cfg"
  have "?ts ! i \<in> set ?ts" using move(3) by simp
  with U have "untimed (?ts ! i)" by (simp add: inv_untimed_def)
  from untimed_step [OF move(4) this] U
  have self: "untimed t'" "\<forall>n \<in> set new. untimed n" "kills c' = 0" "\<not> panicked c'"
    by (auto simp: inv_untimed_def)
  have "untimed u" if "u \<in> set (?ts[i := t'] @ new)" for u
    using set_step_threads [OF that] self U by (auto simp: inv_untimed_def)
  with self show ?thesis unfolding move(5) inv_untimed_def by simp
qed

lemma inv_unstarted_exec: "inv_unstarted cfg \<Longrightarrow> inv_unstarted (exec sched cfg)"
  by (induction sched arbitrary: cfg) (simp_all add: exec_def inv_unstarted_step)

lemma inv_untimed_exec: "inv_untimed cfg \<Longrightarrow> inv_untimed (exec sched cfg)"
  by (induction sched arbitrary: cfg) (simp_all add: exec_def inv_untimed_step)

lemma inv_unstarted_init: "Start \<notin> set calls \<Longrightarrow> inv_unstarted (init calls)"
proof -
  assume n: "Start \<notin> set calls"
  have "unstarted (call_thread a)" if "a \<noteq> Start" for a
    by (cases a) (use that in auto)
  moreover have "a \<noteq> Start" if "a \<in> set calls" for a using that n by auto
  ultimately show ?thesis by (auto simp: inv_unstarted_def init_def New_def clean_def)
qed

lemma inv_untimed_init: "\<forall>d. CloseTimeout d \<in> set calls \<longrightarrow> d \<le> 0 \<Longrightarrow> inv_untimed (init calls)"
proof -
  assume n: "\<forall>d. CloseTimeout d \<in> set calls \<longrightarrow> d \<le> 0"
  have "untimed (call_thread a)" if "a \<in> set calls" for a
    by (cases a) (use that n in auto)
  then show ?thesis by (auto simp: inv_untimed_def init_def New_def)
qed

lemma may_kill_untimed: "\<forall>t \<in> set ts. untimed t \<Longrightarrow> total may_kill ts = 0"
proof (induction ts)
  case Nil
  then show ?case by (simp add: total_def)
next
  case (Cons t ts)
  then have "untimed t" by simp
  then have "may_kill t = 0" by (induction t rule: may_kill.induct) auto
  with Cons show ?case by (simp add: total_def)
qed

subsection \<open>What holds in every run\<close>

text \<open>
  Whatever the events and the schedule: \<open>cmd.cmd.Run()\<close> has been called at most once,
  the channel of \<open>Done()\<close> has been closed at most once and stays closed, the kill signal
  has been sent at most once, and every call of \<open>CloseTimeout\<close> that has returned has
  seen the channel closed and has returned the accumulated error as it stands, which no
  later step changes.
\<close>

lemma lifecycle_safety:
  "spawns (shared (exec sched (init calls))) \<le> 1
   \<and> wait (shared (exec sched (init calls))) \<le> 1
   \<and> wait (shared (exec sched (init calls))) \<le> wait (shared (exec (sched @ later) (init calls)))
   \<and> kills (shared (exec sched (init calls))) \<le> 1
   \<and> (\<forall>r \<in> set (returns (exec sched (init calls))).
         wait (shared (exec sched (init calls))) = 1
       \<and> r = waitErr (shared (exec sched (init calls))))
   \<and> (\<forall>i r. i < length (threads (exec sched (init calls)))
          \<and> threads (exec sched (init calls)) ! i = Returned r \<longrightarrow>
          threads (exec (sched @ later) (init calls)) ! i = Returned r)"
proof -
  let ?cfg = "exec sched (init calls)"
  have I: "inv ?cfg" by (rule inv_reachable)
  then have A: "total own (threads ?cfg) + wait (shared ?cfg) = (if started (shared ?cfg) then 1 else 0)"
    and B: "total may_spawn (threads ?cfg) + spawns (shared ?cfg) \<le> (if started (shared ?cfg) then 1 else 0)"
    and D: "total may_kill (threads ?cfg) + kills (shared ?cfg) \<le> (if killOnce (shared ?cfg) = Idle then 0 else 1)"
    by (simp_all add: inv_def inv_counts_def Let_def)
  have 1: "spawns (shared ?cfg) \<le> 1" using B by (auto split: if_splits)
  have 2: "wait (shared ?cfg) \<le> 1" using A by (auto split: if_splits)
  have 3: "wait (shared ?cfg) \<le> wait (shared (exec (sched @ later) (init calls)))"
    unfolding exec_append by (rule wait_mono)
  have 4: "kills (shared ?cfg) \<le> 1" using D by (auto split: if_splits)
  have 5: "\<forall>r \<in> set (returns ?cfg). wait (shared ?cfg) = 1 \<and> r = waitErr (shared ?cfg)"
  proof
    fix r assume "r \<in> set (returns ?cfg)"
    then have "Returned r \<in> set (threads ?cfg)" by (simp add: returns_set)
    with I have "thread_ok (shared ?cfg) (Returned r)" unfolding inv_def inv_threads_def by blast
    then show "wait (shared ?cfg) = 1 \<and> r = waitErr (shared ?cfg)" by simp
  qed
  have 6: "\<forall>i r. i < length (threads ?cfg) \<and> threads ?cfg ! i = Returned r \<longrightarrow>
          threads (exec (sched @ later) (init calls)) ! i = Returned r"
    unfolding exec_append using Returned_persists by blast
  from 1 2 3 4 5 6 show ?thesis by blast
qed

text \<open>
  When no event is a call of \<open>Start\<close>: no process is ever spawned and no call returns an
  error that holds an exit-code error; when moreover no call has a positive timeout, no
  call waits for the timer, no kill signal is sent and nothing panics.
\<close>

lemma never_started_safety:
  assumes n: "Start \<notin> set calls"
  shows "spawns (shared (exec sched (init calls))) = 0
   \<and> (\<forall>r \<in> set (returns (exec sched (init calls))). clean r)
   \<and> ((\<forall>d. CloseTimeout d \<in> set calls \<longrightarrow> d \<le> 0) \<longrightarrow>
        kills (shared (exec sched (init calls))) = 0
      \<and> total may_kill (threads (exec sched (init calls))) = 0
      \<and> \<not> panicked (shared (exec sched (init calls))))"
proof -
  let ?cfg = "exec sched (init calls)"
  have U: "inv_unstarted ?cfg" by (rule inv_unstarted_exec [OF inv_unstarted_init [OF n]])
  have I: "inv ?cfg" by (rule inv_reachable)
  have 1: "spawns (shared ?cfg) = 0" using U by (simp add: inv_unstarted_def)
  have 2: "\<forall>r \<in> set (returns ?cfg). clean r"
  proof
    fix r assume "r \<in> set (returns ?cfg)"
    then have "Returned r \<in> set (threads ?cfg)" by (simp add: returns_set)
    with I have "thread_ok (shared ?cfg) (Returned r)" unfolding inv_def inv_threads_def by blast
    with U show "clean r" by (simp add: inv_unstarted_def)
  qed
  have 3: "(\<forall>d. CloseTimeout d \<in> set calls \<longrightarrow> d \<le> 0) \<longrightarrow>
        kills (shared ?cfg) = 0 \<and> total may_kill (threads ?cfg) = 0 \<and> \<not> panicked (shared ?cfg)"
  proof
    assume "\<forall>d. CloseTimeout d \<in> set calls \<longrightarrow> d \<le> 0"
    from inv_untimed_exec [OF inv_untimed_init [OF this], of sched]
    show "kills (shared ?cfg) = 0 \<and> total may_kill (threads ?cfg) = 0 \<and> \<not> panicked (shared ?cfg)"
      using may_kill_untimed by (simp add: inv_untimed_def)
  qed
  from 1 2 3 show ?thesis by blast
qed

subsection \<open>Example runs\<close>

lemmas run_defs = exec_def step_def init_def New_def firing_def step_defs Stream_Push_def
  Stream_Close_def NewStartMessage_def NewExitMessage_def errors_Join_def List.map_filter_simps

lemma lifecycle_run:
  "exec lifecycle (init [Start, Close, CloseTimeout 5])
     = \<lparr>shared = New\<lparr>out := \<lparr>published = [StartMessage 0, ExitMessage 0 3], closed = True\<rparr>,
                       ctx_err := Some Canceled, watcher := Fired, started := True, wait := 1,
                       waitErr := Some (joinError [joinError [ErrExitCode 3]]),
                       killOnce := Finished, spawns := 1, process := True, stdin_closes := 1\<rparr>,
        threads = [Exited, Returned (Some (joinError [joinError [ErrExitCode 3]])),
                   Returned (Some (joinError [joinError [ErrExitCode 3]])), Exited,
                   pipeInput_thread P_head, CloseTimeout_call 0 C_cancel]\<rparr>"
  by (simp add: lifecycle_def run_defs)

lemma early_timeout_run:
  "exec early_timeout (init [Start, CloseTimeout 1])
     = \<lparr>shared = New\<lparr>ctx_err := Some Canceled, watcher := Fired, started := True,
                       killOnce := Running, panicked := True\<rparr>,
        threads = [Exited, Crashed, runCmd_thread R_push_start 0, CloseTimeout_call 0 C_cancel]\<rparr>"
  by (simp add: early_timeout_def run_defs)

lemma blocked_close_run:
  "exec blocked_close (init [Start, Close, CloseTimeout 1])
     = \<lparr>shared = New\<lparr>ctx_err := Some Canceled, watcher := Fired, started := True,
                       killOnce := Running, panicked := True\<rparr>,
        threads = [Exited, CloseTimeout_call 0 C_once_kill, Crashed, runCmd_thread R_push_start 0,
                   CloseTimeout_call 0 C_cancel]\<rparr>"
  by (simp add: blocked_close_def run_defs)

lemma race_run:
  "exec race (init [CloseTimeout 1])
     = \<lparr>shared = New\<lparr>ctx_err := Some Canceled, watcher := Fired, started := True,
                       killOnce := Running, panicked := True\<rparr>,
        threads = [Crashed, CloseTimeout_call 0 C_cleanup_out]\<rparr>"
  by (simp add: race_def run_defs)

section \<open>Properties of the lifecycle\<close>

text \<open>
  Claim C3 (the channel of \<open>Done()\<close> is closed exactly once however shutdown is
  requested). The code can end without closing it. After \<open>Start()\<close> has started the
  goroutine of \<open>runCmd\<close> and before that goroutine has started the process, a caller of
  \<open>CloseTimeout(1)\<close> cancels, loses the compare-and-swap, enters the function of
  \<open>killOnce\<close>, and its timer fires: \<open>cmd.cmd.Process\<close> is nil and the signal call
  panics. In the schedule \<open>early_timeout\<close> the program has panicked with the channel
  never closed and no process spawned, and whatever is scheduled afterwards the
  channel stays open. (That the channel is never closed twice, and the process never
  spawned twice, is lemma \<open>lifecycle_safety\<close>.)
\<close>

theorem Done_never_reached_after_early_timeout:
  "panicked (shared (exec (early_timeout @ rest) (init [Start, CloseTimeout 1])))
   \<and> wait (shared (exec (early_timeout @ rest) (init [Start, CloseTimeout 1]))) = 0
   \<and> spawns (shared (exec (early_timeout @ rest) (init [Start, CloseTimeout 1]))) = 0
   \<and> started (shared (exec (early_timeout @ rest) (init [Start, CloseTimeout 1])))"
proof -
  have "panicked (shared (exec early_timeout (init [Start, CloseTimeout 1])))"
    by (simp add: early_timeout_run)
  from crashed_stays [OF this, of rest] show ?thesis
    by (simp add: exec_append early_timeout_run New_def)
qed

text \<open>
  Claim C5 (every call of \<open>Close\<close> and \<open>CloseTimeout\<close> blocks until \<open>Done\<close> and returns
  the identical accumulated error). The code can panic inside a call, and then no call
  returns. In the schedule \<open>blocked_close\<close> a caller of \<open>CloseTimeout(1)\<close> is inside the
  function of \<open>killOnce\<close> while a caller of \<open>Close()\<close> waits for \<open>killOnce\<close>; the timer
  fires before the process exists, the signal call panics, and whatever is scheduled
  afterwards neither call has returned. (That the calls that do return have seen the
  channel closed and return the same value is lemma \<open>lifecycle_safety\<close>.)
\<close>

theorem no_call_returns_after_panic:
  "panicked (shared (exec (blocked_close @ rest) (init [Start, Close, CloseTimeout 1])))
   \<and> returns (exec (blocked_close @ rest) (init [Start, Close, CloseTimeout 1])) = []
   \<and> threads (exec (blocked_close @ rest) (init [Start, Close, CloseTimeout 1])) ! 1
       = CloseTimeout_call 0 C_once_kill
   \<and> threads (exec (blocked_close @ rest) (init [Start, Close, CloseTimeout 1])) ! 2 = Crashed
   \<and> wait (shared (exec (blocked_close @ rest) (init [Start, Close, CloseTimeout 1]))) = 0"
proof -
  have "panicked (shared (exec blocked_close (init [Start, Close, CloseTimeout 1])))"
    by (simp add: blocked_close_run)
  from crashed_stays [OF this, of rest] show ?thesis
    by (simp add: exec_append blocked_close_run New_def returns_def List.map_filter_simps)
qed

text \<open>
  Claim C6 (closing a controller that was never started releases the resources without
  entering the kill/timeout branch, and returns). \<open>CloseTimeout\<close> cancels the context
  before it stops the watcher, so the watcher starts its own call of \<open>Close\<close>. In the
  schedule \<open>race\<close> that call wins the compare-and-swap; the caller of
  \<open>CloseTimeout(1)\<close> then takes the other branch, enters the function of \<open>killOnce\<close>,
  and its timer fires before the channel of \<open>Done()\<close> is closed: no process was ever
  spawned, \<open>cmd.cmd.Process\<close> is nil, and the signal call panics. The caller never
  returns and the resources are not released: stdin is not closed, the channel is not
  closed. (What holds of never-started controllers in every run is lemma
  \<open>never_started_safety\<close>.)
\<close>

theorem CloseTimeout_never_started_panics:
  "panicked (shared (exec (race @ rest) (init [CloseTimeout 1])))
   \<and> threads (exec (race @ rest) (init [CloseTimeout 1])) ! 0 = Crashed
   \<and> spawns (shared (exec (race @ rest) (init [CloseTimeout 1]))) = 0
   \<and> \<not> process (shared (exec (race @ rest) (init [CloseTimeout 1])))
   \<and> stdin_closes (shared (exec (race @ rest) (init [CloseTimeout 1]))) = 0
   \<and> wait (shared (exec (race @ rest) (init [CloseTimeout 1]))) = 0
   \<and> returns (exec (race @ rest) (init [CloseTimeout 1])) = []"
proof -
  have "panicked (shared (exec race (init [CloseTimeout 1])))"
    by (simp add: race_run)
  from crashed_stays [OF this, of rest] show ?thesis
    by (simp add: exec_append race_run New_def returns_def List.map_filter_simps)
qed

end
